theory Spec2Isabelle
  imports Main "HOL-Library.Char_ord" "HOL-Library.List_Lexorder"
begin

section \<open>Regular expressions of the configuration\<close>

text \<open>
  \<^verbatim>\<open>src/config.ts\<close> configures the generator with JavaScript \<^verbatim>\<open>RegExp\<close> values and the
  generator only ever calls \<^verbatim>\<open>pattern.test(name)\<close> on them. None of the patterns carries
  the \<^verbatim>\<open>g\<close> or \<^verbatim>\<open>y\<close> flag, so \<^verbatim>\<open>test\<close> is a pure search: is there a substring of
  the name that the pattern matches, pinned to the start by \<^verbatim>\<open>^\<close> and to the end by
  \<^verbatim>\<open>$\<close>. The pattern language below covers what the configuration uses: literal
  characters, \<^verbatim>\<open>\w\<close>, grouping, alternation, \<^verbatim>\<open>?\<close> and \<^verbatim>\<open>+\<close>, the two anchors at
  the ends of the pattern and the \<^verbatim>\<open>i\<close> flag. Matching is decided by derivatives.
  Strings are byte strings; names are taken to be ASCII.
\<close>

datatype regex =
    Never
  | Eps
  | Chr char
  | AnyChar
  | WordChar
  | Cat regex regex
  | Alt regex regex
  | Star regex

record RegExp =
  fromStart :: bool
  pattern :: regex
  toEnd :: bool
  ignoreCase :: bool

definition wordChars :: string where
  "wordChars = ''abcdefghijklmnopqrstuvwxyzABCDEFGHIJKLMNOPQRSTUVWXYZ0123456789_''"

definition toLowerAscii :: "char \<Rightarrow> char" where
  "toLowerAscii c =
     (case map_of (zip ''ABCDEFGHIJKLMNOPQRSTUVWXYZ'' ''abcdefghijklmnopqrstuvwxyz'') c of
        Some d \<Rightarrow> d
      | None \<Rightarrow> c)"

fun nullable :: "regex \<Rightarrow> bool" where
  "nullable Never = False"
| "nullable Eps = True"
| "nullable (Chr c) = False"
| "nullable AnyChar = False"
| "nullable WordChar = False"
| "nullable (Cat r s) = (nullable r \<and> nullable s)"
| "nullable (Alt r s) = (nullable r \<or> nullable s)"
| "nullable (Star r) = True"

fun deriv :: "char \<Rightarrow> regex \<Rightarrow> regex" where
  "deriv c Never = Never"
| "deriv c Eps = Never"
| "deriv c (Chr d) = (if c = d then Eps else Never)"
| "deriv c AnyChar = Eps"
| "deriv c WordChar = (if c \<in> set wordChars then Eps else Never)"
| "deriv c (Cat r s) =
     (if nullable r then Alt (Cat (deriv c r) s) (deriv c s) else Cat (deriv c r) s)"
| "deriv c (Alt r s) = Alt (deriv c r) (deriv c s)"
| "deriv c (Star r) = Cat (deriv c r) (Star r)"

definition matches :: "regex \<Rightarrow> string \<Rightarrow> bool" where
  "matches r s = nullable (fold deriv s r)"

fun foldCase :: "regex \<Rightarrow> regex" where
  "foldCase (Chr c) = Chr (toLowerAscii c)"
| "foldCase (Cat r s) = Cat (foldCase r) (foldCase s)"
| "foldCase (Alt r s) = Alt (foldCase r) (foldCase s)"
| "foldCase (Star r) = Star (foldCase r)"
| "foldCase r = r"

text \<open>\<^verbatim>\<open>RegExp.prototype.test\<close> for a pattern without \<^verbatim>\<open>g\<close> and \<^verbatim>\<open>y\<close>.\<close>

definition test :: "RegExp \<Rightarrow> string \<Rightarrow> bool" where
  "test re s =
     (let r0 = (if ignoreCase re then foldCase (pattern re) else pattern re);
          r1 = (if fromStart re then r0 else Cat (Star AnyChar) r0);
          r2 = (if toEnd re then r1 else Cat r1 (Star AnyChar))
      in matches r2 (if ignoreCase re then map toLowerAscii s else s))"

text \<open>A literal run of characters, \<^verbatim>\<open>r?\<close> and \<^verbatim>\<open>r+\<close>.\<close>

definition lit :: "string \<Rightarrow> regex" where
  "lit s = foldr (\<lambda>c r. Cat (Chr c) r) s Eps"

definition opt :: "regex \<Rightarrow> regex" where
  "opt r = Alt r Eps"

definition plus1 :: "regex \<Rightarrow> regex" where
  "plus1 r = Cat r (Star r)"

text \<open>\<^verbatim>\<open>/lit$/\<close> and \<^verbatim>\<open>/lit$/i\<close>.\<close>

definition endsWith :: "regex \<Rightarrow> RegExp" where
  "endsWith r = \<lparr>fromStart = False, pattern = r, toEnd = True, ignoreCase = False\<rparr>"

definition endsWithI :: "regex \<Rightarrow> RegExp" where
  "endsWithI r = \<lparr>fromStart = False, pattern = r, toEnd = True, ignoreCase = True\<rparr>"

section \<open>Configuration (\<^verbatim>\<open>src/config.ts\<close>)\<close>

text \<open>
  \<^verbatim>\<open>generateIndex\<close> merges the caller's partial configuration over \<^verbatim>\<open>defaultConfig\<close>;
  the record is the merged \<^verbatim>\<open>fullConfig\<close>. The two extension options are read by
  \<^verbatim>\<open>generateIndex\<close> although the interface does not declare them: an absent
  \<^verbatim>\<open>forceExplicitExtensions\<close> is falsy (\<open>False\<close>), an absent or empty
  \<^verbatim>\<open>extensionOverride\<close> is falsy (the empty string). \<^verbatim>\<open>singleLineThreshold\<close> is an
  integer (\<^verbatim>\<open>NaN\<close>, which the command line gives for a threshold that is not a number,
  is outside the model). The field \<^verbatim>\<open>include\<close> is named \<open>includeRe\<close> (\<open>include\<close> is a keyword here).
\<close>

record Config =
  componentsDir :: string
  outputFile :: string
  sortAlphabetically :: bool
  singleLineThreshold :: int
  typePatterns :: "RegExp list"
  includeRe :: RegExp
  exclude :: "RegExp list"
  headerComment :: string
  verbose :: bool
  dryRun :: bool
  forceExplicitExtensions :: bool
  extensionOverride :: string

definition nl :: char where
  "nl = CHR 0x0A"

definition dq :: char where
  "dq = CHR 0x22"

definition defaultHeaderComment :: string where
  "defaultHeaderComment =
     ''/**'' @ [nl] @
     '' * This file was automatically generated.'' @ [nl] @
     '' * DO NOT MODIFY IT BY HAND.'' @ [nl] @
     '' * Run the script again to regenerate.'' @ [nl] @
     '' */'' @ [nl] @ [nl]"

definition defaultTypePatterns :: "RegExp list" where
  "defaultTypePatterns =
     [ endsWithI (lit ''Api''),
       endsWithI (lit ''Props''),
       endsWithI (lit ''Config''),
       \<lparr>fromStart = True, pattern = Cat (lit ''Use'') (plus1 WordChar), toEnd = True,
        ignoreCase = True\<rparr>,
       endsWithI (lit ''Context''),
       endsWithI (lit ''Provider''),
       endsWithI (lit ''Store''),
       endsWithI (lit ''Ref''),
       endsWithI (lit ''Options'') ]"

definition defaultInclude :: RegExp where
  "defaultInclude = endsWith (Cat (Chr CHR ''.'') (Alt (lit ''tsx'') (lit ''ts'')))"

definition defaultExclude :: "RegExp list" where
  "defaultExclude =
     [ endsWith (lit ''.d.ts''),
       endsWith (Cat (lit ''.test.ts'') (opt (Chr CHR ''x''))),
       endsWith (Cat (lit ''.stories.ts'') (opt (Chr CHR ''x''))),
       endsWith (lit ''index.ts'') ]"

definition defaultConfig :: Config where
  "defaultConfig =
     \<lparr> componentsDir = ''src/components/ui'',
       outputFile = ''index.ts'',
       sortAlphabetically = True,
       singleLineThreshold = 3,
       typePatterns = defaultTypePatterns,
       includeRe = defaultInclude,
       exclude = defaultExclude,
       headerComment = defaultHeaderComment,
       verbose = False,
       dryRun = False,
       forceExplicitExtensions = False,
       extensionOverride = [] \<rparr>"

section \<open>Syntax trees and the export extractor\<close>

text \<open>
  \<^verbatim>\<open>ts.createSourceFile\<close> belongs to the TypeScript compiler, not to this repository; the
  model starts from the tree it returns. A node keeps what \<^verbatim>\<open>extractExports\<close> reads of
  it: its kind, its modifiers (absent modifiers are the empty list, for which
  \<^verbatim>\<open>node.modifiers?.some(...)\<close> is falsy), its name, and the children that
  \<^verbatim>\<open>ts.forEachChild\<close> enumerates, in order. Every other kind of node is \<open>OtherNode\<close>
  (the source file node itself is one).
\<close>

datatype modifier = ExportKeyword | DefaultKeyword | DeclareKeyword | AsyncKeyword | OtherModifier

datatype bindingName = Identifier string | BindingPattern

datatype expression = IdentifierExpression string | FunctionExpression | ArrowFunction | OtherExpression

datatype exportSpecifier = ExportSpecifier (isTypeOnly: bool) (nameText: string)

datatype exportClause = NamedExports "exportSpecifier list" | NamespaceExport

datatype node =
    ExportDeclaration "exportClause option" "node list"
  | VariableStatement "modifier list" "bindingName list" "node list"
  | TypeAliasDeclaration "modifier list" string "node list"
  | InterfaceDeclaration "modifier list" string "node list"
  | FunctionDeclaration "modifier list" "string option" "node list"
  | ExportAssignment bool expression "node list"
  | OtherNode "node list"

type_synonym found = "string list \<times> string list"

definition hasExportKeyword :: "modifier list \<Rightarrow> bool" where
  "hasExportKeyword ms = list_ex (\<lambda>m. m = ExportKeyword) ms"

fun pushElement :: "exportSpecifier \<Rightarrow> found \<Rightarrow> found" where
  "pushElement element (exports, typeExports) =
     (if isTypeOnly element then (exports, typeExports @ [nameText element])
      else (exports @ [nameText element], typeExports))"

fun pushDeclaration :: "bindingName \<Rightarrow> found \<Rightarrow> found" where
  "pushDeclaration (Identifier name) (exports, typeExports) = (exports @ [name], typeExports)"
| "pushDeclaration BindingPattern (exports, typeExports) = (exports, typeExports)"

text \<open>The \<^verbatim>\<open>if\<close> / \<^verbatim>\<open>else if\<close> chain of \<^verbatim>\<open>visit\<close>: what one node adds to the two arrays.\<close>

fun collect :: "node \<Rightarrow> found \<Rightarrow> found" where
  "collect (ExportDeclaration (Some (NamedExports elements)) ch) acc = fold pushElement elements acc"
| "collect (ExportDeclaration (Some NamespaceExport) ch) acc = acc"
| "collect (ExportDeclaration None ch) acc = acc"
| "collect (VariableStatement ms declarations ch) acc =
     (if hasExportKeyword ms then fold pushDeclaration declarations acc else acc)"
| "collect (TypeAliasDeclaration ms name ch) (exports, typeExports) =
     (if hasExportKeyword ms then (exports, typeExports @ [name]) else (exports, typeExports))"
| "collect (InterfaceDeclaration ms name ch) (exports, typeExports) =
     (if hasExportKeyword ms then (exports, typeExports @ [name]) else (exports, typeExports))"
| "collect (FunctionDeclaration ms (Some name) ch) (exports, typeExports) =
     (if hasExportKeyword ms then (exports @ [name], typeExports) else (exports, typeExports))"
| "collect (FunctionDeclaration ms None ch) acc = acc"
| "collect (ExportAssignment isExportEquals (IdentifierExpression text) ch) (exports, typeExports) =
     (if \<not> isExportEquals then (exports @ [text], typeExports) else (exports, typeExports))"
| "collect (ExportAssignment isExportEquals FunctionExpression ch) (exports, typeExports) =
     (if \<not> isExportEquals then (exports @ [''default''], typeExports) else (exports, typeExports))"
| "collect (ExportAssignment isExportEquals ArrowFunction ch) (exports, typeExports) =
     (if \<not> isExportEquals then (exports @ [''default''], typeExports) else (exports, typeExports))"
| "collect (ExportAssignment isExportEquals OtherExpression ch) acc = acc"
| "collect (OtherNode ch) acc = acc"

fun children :: "node \<Rightarrow> node list" where
  "children (ExportDeclaration c ch) = ch"
| "children (VariableStatement ms ds ch) = ch"
| "children (TypeAliasDeclaration ms n ch) = ch"
| "children (InterfaceDeclaration ms n ch) = ch"
| "children (FunctionDeclaration ms n ch) = ch"
| "children (ExportAssignment b e ch) = ch"
| "children (OtherNode ch) = ch"

text \<open>
  \<^verbatim>\<open>visit\<close> handles the node and then calls \<^verbatim>\<open>ts.forEachChild(node, visit)\<close>; \<^verbatim>\<open>visit\<close>
  returns nothing, so \<^verbatim>\<open>forEachChild\<close> goes through every child.
\<close>

fun visit :: "node \<Rightarrow> found \<Rightarrow> found"
  and forEachChild :: "node list \<Rightarrow> found \<Rightarrow> found" where
  "visit (ExportDeclaration c ch) acc = forEachChild ch (collect (ExportDeclaration c ch) acc)"
| "visit (VariableStatement ms ds ch) acc = forEachChild ch (collect (VariableStatement ms ds ch) acc)"
| "visit (TypeAliasDeclaration ms n ch) acc = forEachChild ch (collect (TypeAliasDeclaration ms n ch) acc)"
| "visit (InterfaceDeclaration ms n ch) acc = forEachChild ch (collect (InterfaceDeclaration ms n ch) acc)"
| "visit (FunctionDeclaration ms n ch) acc = forEachChild ch (collect (FunctionDeclaration ms n ch) acc)"
| "visit (ExportAssignment b e ch) acc = forEachChild ch (collect (ExportAssignment b e ch) acc)"
| "visit (OtherNode ch) acc = forEachChild ch (collect (OtherNode ch) acc)"
| "forEachChild [] acc = acc"
| "forEachChild (n # ns) acc = forEachChild ns (visit n acc)"

definition extractExports :: "node \<Rightarrow> found" where
  "extractExports sourceFile = visit sourceFile ([], [])"

text \<open>Every node of a tree, in the order \<^verbatim>\<open>visit\<close> reaches them.\<close>

fun nodes :: "node \<Rightarrow> node list"
  and nodesOf :: "node list \<Rightarrow> node list" where
  "nodes (ExportDeclaration c ch) = ExportDeclaration c ch # nodesOf ch"
| "nodes (VariableStatement ms ds ch) = VariableStatement ms ds ch # nodesOf ch"
| "nodes (TypeAliasDeclaration ms n ch) = TypeAliasDeclaration ms n ch # nodesOf ch"
| "nodes (InterfaceDeclaration ms n ch) = InterfaceDeclaration ms n ch # nodesOf ch"
| "nodes (FunctionDeclaration ms n ch) = FunctionDeclaration ms n ch # nodesOf ch"
| "nodes (ExportAssignment b e ch) = ExportAssignment b e ch # nodesOf ch"
| "nodes (OtherNode ch) = OtherNode ch # nodesOf ch"
| "nodesOf [] = []"
| "nodesOf (n # ns) = nodes n @ nodesOf ns"

text \<open>\<^verbatim>\<open>shouldBeType\<close>: \<^verbatim>\<open>typePatterns.some(pattern => pattern.test(name))\<close>.\<close>

definition shouldBeType :: "string \<Rightarrow> RegExp list \<Rightarrow> bool" where
  "shouldBeType name patterns = list_ex (\<lambda>pattern. test pattern name) patterns"

section \<open>Paths\<close>

text \<open>
  Node's \<^verbatim>\<open>path.extname\<close> and \<^verbatim>\<open>path.basename\<close>, on a directory entry (a name that holds
  no separator, as \<^verbatim>\<open>readdir\<close> returns them). The extension runs from the last dot to
  the end; there is none when the name has no dot, when its only dot is its first
  character, or when the name is \<^verbatim>\<open>..\<close>. \<^verbatim>\<open>basename(p, ext)\<close> drops \<open>ext\<close> from the end
  of \<open>p\<close> when \<open>ext\<close> is not empty and \<open>p\<close> ends with it, and is empty when \<open>ext\<close> is all
  of \<open>p\<close>. \<^verbatim>\<open>path.resolve\<close> and \<^verbatim>\<open>path.join\<close> are modelled without normalisation of
  \<^verbatim>\<open>.\<close> and \<^verbatim>\<open>..\<close> segments.
\<close>

definition extname :: "string \<Rightarrow> string" where
  "extname p =
     (let afterDot = takeWhile (\<lambda>c. c \<noteq> CHR ''.'') (rev p)
      in if length afterDot = length p then []
         else if length afterDot + 1 = length p then []
         else if p = ''..'' then []
         else drop (length p - (length afterDot + 1)) p)"

definition basename :: "string \<Rightarrow> string \<Rightarrow> string" where
  "basename p ext =
     (if ext \<noteq> [] \<and> length ext \<le> length p then
        (if ext = p then []
         else if drop (length p - length ext) p = ext then take (length p - length ext) p
         else p)
      else p)"

definition resolve :: "string \<Rightarrow> string \<Rightarrow> string" where
  "resolve base p = (case p of c # cs \<Rightarrow> if c = CHR ''/'' then p else base @ ''/'' @ p | [] \<Rightarrow> base)"

definition join :: "string \<Rightarrow> string \<Rightarrow> string" where
  "join dir file = dir @ ''/'' @ file"

section \<open>The world \<^verbatim>\<open>generateIndex\<close> runs in\<close>

text \<open>
  A thrown value is a \<^verbatim>\<open>FileSystemError\<close> (\<^verbatim>\<open>src/types.ts\<close>): an error with an optional
  \<^verbatim>\<open>code\<close> and \<^verbatim>\<open>path\<close>.
\<close>

record FileSystemError =
  code :: "string option"
  path :: "string option"
  message :: string

text \<open>
  What the run reads from outside: the two probes of the working directory
  (\<^verbatim>\<open>shouldUseExplicitExtensions\<close>, and \<^verbatim>\<open>detectMonorepo\<close> with
  \<^verbatim>\<open>findUIComponentsInMonorepo\<close>) by their results, and the file system by the outcome
  of each call: \<^verbatim>\<open>stat\<close> throws or not, \<^verbatim>\<open>readdir\<close> throws or lists the entries,
  \<^verbatim>\<open>readFile\<close> followed by \<^verbatim>\<open>ts.createSourceFile\<close> throws or gives the tree of the file,
  \<^verbatim>\<open>writeFile\<close> throws or not. \<open>elapsed\<close> is the text of the measured processing time.
\<close>

record env =
  cwd :: string
  explicitExtensionsDetected :: bool
  isMonorepo :: bool
  monorepoUIPath :: "string option"
  statThrows :: "string \<Rightarrow> FileSystemError option"
  readdirResult :: "string \<Rightarrow> FileSystemError + string list"
  sourceFile :: "string \<Rightarrow> FileSystemError + node"
  writeFileThrows :: "string \<Rightarrow> string \<Rightarrow> FileSystemError option"
  elapsed :: string

text \<open>
  What the run does to the outside, in order: console output (\<^verbatim>\<open>chalk\<close> styling and the
  time stamp of \<^verbatim>\<open>log\<close> are left out), the file system calls, the contents of the files
  on disk and \<^verbatim>\<open>process.exitCode\<close>. \<open>Progress\<close> is the progress line written to
  standard output, by its two counters. A \<^verbatim>\<open>writeFile\<close> that throws is taken to leave the
  file as it was.
\<close>

datatype logType = Info | Success | Warning | Error | Highlight

datatype event =
    Log string logType
  | ConsoleLog string
  | ConsoleWarn string FileSystemError
  | ConsoleError string FileSystemError
  | StdoutWrite string
  | Progress nat nat
  | Stat string
  | Readdir string
  | ReadFile string
  | WriteFile string string

record world =
  trace :: "event list"
  exitCode :: int
  disk :: "string \<Rightarrow> string option"

definition emit :: "event list \<Rightarrow> world \<Rightarrow> world" where
  "emit es w = w\<lparr>trace := trace w @ es\<rparr>"

fun writesOf :: "event list \<Rightarrow> (string \<times> string) list" where
  "writesOf [] = []"
| "writesOf (WriteFile p t # es) = (p, t) # writesOf es"
| "writesOf (e # es) = writesOf es"

fun readsOf :: "event list \<Rightarrow> string list" where
  "readsOf [] = []"
| "readsOf (ReadFile p # es) = p # readsOf es"
| "readsOf (e # es) = readsOf es"

text \<open>Numbers in messages.\<close>

definition digit :: "nat \<Rightarrow> char" where
  "digit n = ''0123456789'' ! (n mod 10)"

function showNat :: "nat \<Rightarrow> string" where
  "showNat n = (if n < 10 then [digit n] else showNat (n div 10) @ [digit n])"
  by pat_completeness auto
termination
  by (relation "measure (\<lambda>n. n)") auto

text \<open>
  \<^verbatim>\<open>(fileSizeBytes / 1024).toFixed(2)\<close>: the quotient is exact in binary, and
  \<^verbatim>\<open>toFixed\<close> rounds it to hundredths, halves upwards.
\<close>

definition fileSizeKB :: "string \<Rightarrow> string" where
  "fileSizeKB indexContent =
     (let n = (100 * length indexContent + 512) div 1024
      in showNat (n div 100) @ ''.'' @ [digit (n div 10), digit n])"

text \<open>
  A JavaScript \<^verbatim>\<open>Map\<close> keeps its keys in the order of their first insertion;
  \<^verbatim>\<open>set\<close> on a key already present replaces the value where it stands.
\<close>

fun mapSet :: "'k \<Rightarrow> 'v \<Rightarrow> ('k \<times> 'v) list \<Rightarrow> ('k \<times> 'v) list" where
  "mapSet k v [] = [(k, v)]"
| "mapSet k v ((k', v') # m) = (if k' = k then (k, v) # m else (k', v') # mapSet k v m)"

definition mapGet :: "('k \<times> 'v) list \<Rightarrow> 'k \<Rightarrow> 'v option" where
  "mapGet m k = map_of m k"

definition mapKeys :: "('k \<times> 'v) list \<Rightarrow> 'k list" where
  "mapKeys m = map fst m"

text \<open>\<^verbatim>\<open>Array.prototype.join\<close>.\<close>

fun joinWith :: "string \<Rightarrow> string list \<Rightarrow> string" where
  "joinWith sep [] = []"
| "joinWith sep [x] = x"
| "joinWith sep (x # y # ys) = x @ sep @ joinWith sep (y # ys)"

section \<open>\<^verbatim>\<open>generateIndex\<close>\<close>

text \<open>
  The model follows the current \<^verbatim>\<open>index.ts\<close>, the first module of
  \<^verbatim>\<open>src/unnamed/part_002\<close> (lines 1 to 523), which handles extensions; the second module
  of that file is an earlier copy without them. \<^verbatim>\<open>generateIndex\<close> is lines 253 to 523:
  the loop over the component files is lines 357 to 411, the rendering lines 427 to 470,
  the write lines 472 to 488, the \<^verbatim>\<open>catch\<close> and \<^verbatim>\<open>finally\<close> blocks lines 489 to 522.
\<close>

subsection \<open>The loop over the component files\<close>

record loopState =
  componentExports :: "(string \<times> string list) list"
  fileExtensions :: "(string \<times> string) list"
  processedCount :: nat
  typesDetectedCount :: nat
  emitted :: "event list"

definition initialLoopState :: loopState where
  "initialLoopState =
     \<lparr> componentExports = [], fileExtensions = [], processedCount = 0,
       typesDetectedCount = 0, emitted = [] \<rparr>"

definition updateProgress :: "Config \<Rightarrow> nat \<Rightarrow> loopState \<Rightarrow> loopState" where
  "updateProgress cfg fileCount ls =
     (let ls' = ls\<lparr>processedCount := processedCount ls + 1\<rparr>
      in if verbose cfg then ls'\<lparr>emitted := emitted ls' @ [Progress (processedCount ls') fileCount]\<rparr>
         else ls')"

text \<open>
  The loop over a file's value exports: a name that a type pattern matches goes to the
  type exports and is counted, any other name stays a value export. The state is
  \<^verbatim>\<open>finalExports\<close>, \<^verbatim>\<open>finalTypeExports\<close> and the loop state with its counter.
\<close>

fun classify :: "Config \<Rightarrow> string \<Rightarrow> string list \<Rightarrow>
    string list \<times> string list \<times> loopState \<Rightarrow> string list \<times> string list \<times> loopState" where
  "classify cfg file [] st = st"
| "classify cfg file (name # names) (finalExports, finalTypeExports, ls) =
     classify cfg file names
       (if shouldBeType name (typePatterns cfg) then
          (finalExports, finalTypeExports @ [name],
           ls\<lparr>typesDetectedCount := typesDetectedCount ls + 1,
              emitted := emitted ls @
                (if verbose cfg then
                   [Log (''Marking '' @ [dq] @ name @ [dq] @ '' in '' @ file @ '' as a type export'')
                      Highlight]
                 else [])\<rparr>)
        else (finalExports @ [name], finalTypeExports, ls))"

text \<open>The specifier of a type export: the template \<^verbatim>\<open>`type ${name}`\<close>.\<close>

definition typeSpecifier :: "string \<Rightarrow> string" where
  "typeSpecifier name = ''type '' @ name"

text \<open>\<^verbatim>\<open>path.basename(file, path.extname(file))\<close>: the key of a file in both maps.\<close>

definition componentNameOf :: "string \<Rightarrow> string" where
  "componentNameOf file = basename file (extname file)"

text \<open>
  One turn of the loop. The extension is recorded before the \<^verbatim>\<open>try\<close>; a file whose read
  or parse throws gets the warning and nothing else. \<open>ReadFile\<close> marks the call of
  \<^verbatim>\<open>readFile\<close>, whatever its outcome.
\<close>

definition processFile :: "Config \<Rightarrow> env \<Rightarrow> string \<Rightarrow> nat \<Rightarrow> string \<Rightarrow> loopState \<Rightarrow> loopState" where
  "processFile cfg e dir fileCount file ls =
     (let filePath = join dir file;
          componentName = componentNameOf file;
          ls1 = ls\<lparr>fileExtensions := mapSet componentName (extname file) (fileExtensions ls),
                   emitted := emitted ls @ [ReadFile filePath]\<rparr>
      in case sourceFile e filePath of
           Inr tree \<Rightarrow>
             (let (exports, typeExports) = extractExports tree;
                  (finalExports, finalTypeExports, ls2) = classify cfg file exports ([], typeExports, ls1);
                  allExports = finalExports @ map typeSpecifier finalTypeExports;
                  ls3 = (if length allExports > 0
                         then ls2\<lparr>componentExports := mapSet componentName allExports (componentExports ls2)\<rparr>
                         else ls2)
              in updateProgress cfg fileCount ls3)
         | Inl err \<Rightarrow>
             updateProgress cfg fileCount
               (ls1\<lparr>emitted := emitted ls1 @
                  [ConsoleWarn (''Warning: Could not process file '' @ file @ '':'') err]\<rparr>))"

definition processFiles :: "Config \<Rightarrow> env \<Rightarrow> string \<Rightarrow> string list \<Rightarrow> loopState" where
  "processFiles cfg e dir componentFiles =
     fold (processFile cfg e dir (length componentFiles)) componentFiles initialLoopState"

subsection \<open>Rendering\<close>

text \<open>The extension of one module specifier (the three-way choice inside the loop).\<close>

definition moduleExtension :: "Config \<Rightarrow> bool \<Rightarrow> (string \<times> string) list \<Rightarrow> string \<Rightarrow> string" where
  "moduleExtension cfg useExplicitExtensions exts componentName =
     (if useExplicitExtensions then
        (if extensionOverride cfg \<noteq> [] then
           (if hd (extensionOverride cfg) = CHR ''.'' then extensionOverride cfg
            else ''.'' @ extensionOverride cfg)
         else if forceExplicitExtensions cfg then
           (case mapGet exts componentName of Some ext \<Rightarrow> ext | None \<Rightarrow> [])
         else
           (let originalExtension = (case mapGet exts componentName of Some ext \<Rightarrow> ext | None \<Rightarrow> [])
            in if originalExtension = ''.tsx'' \<or> originalExtension = ''.ts'' then ''.js''
               else originalExtension))
      else [])"

definition statement :: "Config \<Rightarrow> string list \<Rightarrow> string \<Rightarrow> string \<Rightarrow> string" where
  "statement cfg exports componentName extension =
     (if int (length exports) \<le> singleLineThreshold cfg then
        ''export { '' @ joinWith '', '' exports @ '' } from '' @ [dq] @ ''./'' @ componentName @
          extension @ [dq] @ '';'' @ [nl]
      else
        ''export {'' @ [nl] @ ''  '' @ joinWith ('','' @ [nl] @ ''  '') exports @ [nl] @
          ''} from '' @ [dq] @ ''./'' @ componentName @ extension @ [dq] @ '';'' @ [nl])"

text \<open>
  \<^verbatim>\<open>componentExports.get(componentName)!\<close> is not checked at run time: were the key
  missing, reading \<^verbatim>\<open>exports.length\<close> would throw a \<^verbatim>\<open>TypeError\<close>.
\<close>

definition undefinedLength :: FileSystemError where
  "undefinedLength =
     \<lparr> code = None, path = None,
       message = ''Cannot read properties of undefined (reading 'length')'' \<rparr>"

fun renderStatements :: "Config \<Rightarrow> bool \<Rightarrow> loopState \<Rightarrow> string list \<Rightarrow> string \<Rightarrow>
    FileSystemError + string" where
  "renderStatements cfg useExplicitExtensions ls [] content = Inr content"
| "renderStatements cfg useExplicitExtensions ls (componentName # rest) content =
     (case mapGet (componentExports ls) componentName of
        None \<Rightarrow> Inl undefinedLength
      | Some exports \<Rightarrow>
          renderStatements cfg useExplicitExtensions ls rest
            (content @
             statement cfg exports componentName
               (moduleExtension cfg useExplicitExtensions (fileExtensions ls) componentName)))"

definition componentNames :: "Config \<Rightarrow> loopState \<Rightarrow> string list" where
  "componentNames cfg ls =
     (if sortAlphabetically cfg then sort (mapKeys (componentExports ls))
      else mapKeys (componentExports ls))"

definition indexContent :: "Config \<Rightarrow> bool \<Rightarrow> loopState \<Rightarrow> FileSystemError + string" where
  "indexContent cfg useExplicitExtensions ls =
     renderStatements cfg useExplicitExtensions ls (componentNames cfg ls) (headerComment cfg)"

subsection \<open>The run\<close>

definition useExplicitExtensions :: "Config \<Rightarrow> env \<Rightarrow> bool" where
  "useExplicitExtensions cfg e = (forceExplicitExtensions cfg \<or> explicitExtensionsDetected e)"

definition extensionNotices :: "Config \<Rightarrow> env \<Rightarrow> event list" where
  "extensionNotices cfg e =
     (if useExplicitExtensions cfg e then
        [ if forceExplicitExtensions cfg
          then Log ''Using actual file extensions in imports (--force-extensions flag)'' Highlight
          else Log ''Detected ESM project, converting extensions to .js'' Highlight,
          if extensionOverride cfg \<noteq> []
          then Log (''Using override extension: '' @ extensionOverride cfg @ '' for all imports'')
                 Highlight
          else Log ''Converting .tsx/.ts extensions to .js in imports (auto-detected)'' Highlight ]
      else [])"

definition monorepoRedirect :: "env \<Rightarrow> string option" where
  "monorepoRedirect e = (if isMonorepo e then monorepoUIPath e else None)"

definition resolveComponentsDir :: "Config \<Rightarrow> env \<Rightarrow> string" where
  "resolveComponentsDir cfg e =
     (case monorepoRedirect e of
        Some monorepoPath \<Rightarrow> monorepoPath
      | None \<Rightarrow> resolve (cwd e) (componentsDir cfg))"

definition monorepoNotice :: "Config \<Rightarrow> env \<Rightarrow> event list" where
  "monorepoNotice cfg e =
     (case monorepoRedirect e of
        Some monorepoPath \<Rightarrow>
          (if verbose cfg
           then [Log (''Detected monorepo structure, using UI components at: '' @ monorepoPath)
                   Highlight]
           else [])
      | None \<Rightarrow> [])"

definition rule :: string where
  "rule = ''=====================================''"

definition dashes :: string where
  "dashes = ''---------------------------------------------------''"

definition bullet :: string where
  "bullet = [CHR 0xE2, CHR 0x80, CHR 0xA2]"

definition banner :: "event list" where
  "banner = [ConsoleLog rule, ConsoleLog '' ShadCN UI Index Generator'', ConsoleLog rule]"

text \<open>The filter on the directory listing.\<close>

definition componentFilesOf :: "Config \<Rightarrow> string list \<Rightarrow> string list" where
  "componentFilesOf cfg files =
     filter (\<lambda>file. test (includeRe cfg) file \<and>
                    \<not> list_ex (\<lambda>pattern. test pattern file) (exclude cfg)) files"

definition filesFound :: "Config \<Rightarrow> string list \<Rightarrow> event list" where
  "filesFound cfg componentFiles =
     Log (''Found '' @ showNat (length componentFiles) @ '' component files'') Highlight #
     (if verbose cfg then
        Log ''Component files found:'' Info #
        map (\<lambda>file. ConsoleLog (''  '' @ bullet @ '' '' @ file)) componentFiles @ [ConsoleLog []]
      else [])"

definition afterLoop :: "Config \<Rightarrow> env \<Rightarrow> string list \<Rightarrow> loopState \<Rightarrow> event list" where
  "afterLoop cfg e componentFiles ls =
     (if verbose cfg then [StdoutWrite [nl]] else []) @
     [ Log (''Processed '' @ showNat (length componentFiles) @ '' files in '' @ elapsed e @ ''s'')
         Success,
       Log (''Detected '' @ showNat (typesDetectedCount ls) @
            '' type exports that need the 'type' keyword'') Highlight,
       Log ''Generating index.ts content...'' Info ]"

datatype completion = Normal | Return | Throw FileSystemError

text \<open>The last step: show the text under \<^verbatim>\<open>dryRun\<close>, write it otherwise.\<close>

definition writeOrShow :: "Config \<Rightarrow> env \<Rightarrow> string \<Rightarrow> loopState \<Rightarrow> string \<Rightarrow> world \<Rightarrow>
    completion \<times> world" where
  "writeOrShow cfg e outputPath ls content w =
     (if dryRun cfg then
        (Normal,
         emit [ Log ''Dry run - index.ts would contain:'' Highlight,
                ConsoleLog dashes, ConsoleLog content, ConsoleLog dashes,
                Log ''No files were modified (dry run mode)'' Info ] w)
      else
        (let w1 = emit [WriteFile outputPath content] w
         in case writeFileThrows e outputPath content of
              Some err \<Rightarrow> (Throw err, w1)
            | None \<Rightarrow>
                (Normal,
                 emit [ Log (''Generated '' @ outputPath @ '' ('' @ fileSizeKB content @ ''KB)'')
                          Success,
                        Log (''File contains '' @ showNat (length (componentExports ls)) @
                             '' component exports'') Success ]
                   (w1\<lparr>disk := (disk w1)(outputPath \<mapsto> content)\<rparr>))))"

text \<open>From the directory listing to the end of the \<^verbatim>\<open>try\<close> block.\<close>

definition generateFrom :: "Config \<Rightarrow> env \<Rightarrow> string \<Rightarrow> string \<Rightarrow> string list \<Rightarrow> world \<Rightarrow>
    completion \<times> world" where
  "generateFrom cfg e dir outputPath files w =
     (let componentFiles = componentFilesOf cfg files;
          w1 = emit (filesFound cfg componentFiles @ [Log ''Processing component files...'' Info]) w;
          ls = processFiles cfg e dir componentFiles;
          w2 = emit (emitted ls @ afterLoop cfg e componentFiles ls) w1
      in case indexContent cfg (useExplicitExtensions cfg e) ls of
           Inl err \<Rightarrow> (Throw err, w2)
         | Inr content \<Rightarrow> writeOrShow cfg e outputPath ls content w2)"

definition tryBlock :: "Config \<Rightarrow> env \<Rightarrow> string \<Rightarrow> string \<Rightarrow> world \<Rightarrow> completion \<times> world" where
  "tryBlock cfg e dir outputPath w =
     (let w1 = emit [Stat dir] w
      in case statThrows e dir of
           Some fsError \<Rightarrow>
             (if code fsError = Some ''ENOENT'' then
                (Return,
                 emit [ Log (''Directory not found: '' @ dir) Error,
                        Log ''Please check the path and try again'' Warning ] w1)
              else (Throw fsError, w1))
         | None \<Rightarrow>
             (let w2 = emit (banner @
                         [ Log ''Starting index generation for UI components'' Info,
                           Log (''Scanning directory: '' @ dir) Info,
                           Readdir dir ]) w1
              in case readdirResult e dir of
                   Inl err \<Rightarrow> (Throw err, w2)
                 | Inr files \<Rightarrow> generateFrom cfg e dir outputPath files w2))"

definition pathText :: "FileSystemError \<Rightarrow> string" where
  "pathText fsError = (case path fsError of Some p \<Rightarrow> p | None \<Rightarrow> ''undefined'')"

definition errorReport :: "FileSystemError \<Rightarrow> event list" where
  "errorReport fsError =
     (case code fsError of
        None \<Rightarrow> [Log (''Unexpected error: '' @ message fsError) Error]
      | Some c \<Rightarrow>
          if c = [] then [Log (''Unexpected error: '' @ message fsError) Error]
          else if c = ''EACCES'' then
            [ Log (''Permission denied: Cannot access '' @ pathText fsError) Error,
              Log ''Try running with elevated permissions'' Warning ]
          else if c = ''ENAMETOOLONG'' then [Log (''Path too long: '' @ pathText fsError) Error]
          else [Log (''Operation failed: '' @ message fsError) Error])"

definition catchBlock :: "Config \<Rightarrow> FileSystemError \<Rightarrow> world \<Rightarrow> world" where
  "catchBlock cfg fsError w =
     (emit (errorReport fsError @
            [ if verbose cfg then ConsoleError ([nl] @ ''Detailed error information:'') fsError
              else Log ''Run with --verbose for more details'' Info ]) w)
     \<lparr>exitCode := 1\<rparr>"

definition finallyBlock :: "world \<Rightarrow> world" where
  "finallyBlock w = emit [ConsoleLog rule, Log ''Generation complete!'' Success, ConsoleLog rule] w"

definition generateIndex :: "Config \<Rightarrow> env \<Rightarrow> world \<Rightarrow> world" where
  "generateIndex cfg e w =
     (let w1 = emit (extensionNotices cfg e @ monorepoNotice cfg e) w;
          dir = resolveComponentsDir cfg e;
          outputPath = join dir (outputFile cfg);
          (c, w2) = tryBlock cfg e dir outputPath w1
      in finallyBlock (case c of Throw err \<Rightarrow> catchBlock cfg err w2 | Normal \<Rightarrow> w2 | Return \<Rightarrow> w2))"

section \<open>Notions used to state the properties\<close>

text \<open>
  What a pattern matches, stated without derivatives: the set of strings of a regular
  expression. \<open>matches_lang\<close> shows that \<open>matches\<close> decides it. \<open>endsIn t s\<close>: the
  string \<open>s\<close> ends with \<open>t\<close>.
\<close>

inductive_set repeated :: "string set \<Rightarrow> string set" for A :: "string set" where
  repeated_none: "[] \<in> repeated A"
| repeated_more: "u \<in> A \<Longrightarrow> v \<in> repeated A \<Longrightarrow> u @ v \<in> repeated A"

fun lang :: "regex \<Rightarrow> string set" where
  "lang Never = {}"
| "lang Eps = {[]}"
| "lang (Chr c) = {[c]}"
| "lang AnyChar = {s. length s = 1}"
| "lang WordChar = {s. length s = 1 \<and> hd s \<in> set wordChars}"
| "lang (Cat r s) = {w. \<exists>u v. w = u @ v \<and> u \<in> lang r \<and> v \<in> lang s}"
| "lang (Alt r s) = lang r \<union> lang s"
| "lang (Star r) = repeated (lang r)"

definition endsIn :: "string \<Rightarrow> string \<Rightarrow> bool" where
  "endsIn t s = (length t \<le> length s \<and> drop (length s - length t) s = t)"

text \<open>What one node adds to the value exports and to the type exports.\<close>

definition ownExports :: "node \<Rightarrow> string list" where
  "ownExports n = fst (collect n ([], []))"

definition ownTypeExports :: "node \<Rightarrow> string list" where
  "ownTypeExports n = snd (collect n ([], []))"

text \<open>
  A tree holds \<^verbatim>\<open>export interface Foo\<close> or \<^verbatim>\<open>export type Foo = ...\<close>; a tree holds
  \<^verbatim>\<open>export const Foo = ...\<close> (an exported variable statement declaring the identifier).
\<close>

fun isExportedTypeDeclaration :: "string \<Rightarrow> node \<Rightarrow> bool" where
  "isExportedTypeDeclaration foo (InterfaceDeclaration ms name ch) = (hasExportKeyword ms \<and> name = foo)"
| "isExportedTypeDeclaration foo (TypeAliasDeclaration ms name ch) = (hasExportKeyword ms \<and> name = foo)"
| "isExportedTypeDeclaration foo n = False"

fun isExportedVariable :: "string \<Rightarrow> node \<Rightarrow> bool" where
  "isExportedVariable foo (VariableStatement ms declarations ch) =
     (hasExportKeyword ms \<and> Identifier foo \<in> set declarations)"
| "isExportedVariable foo n = False"

definition exportsTypeDeclaration :: "string \<Rightarrow> node \<Rightarrow> bool" where
  "exportsTypeDeclaration foo tree = list_ex (isExportedTypeDeclaration foo) (nodes tree)"

definition exportsVariable :: "string \<Rightarrow> node \<Rightarrow> bool" where
  "exportsVariable foo tree = list_ex (isExportedVariable foo) (nodes tree)"

text \<open>
  The combined export list of a parsed file (\<^verbatim>\<open>allExports\<close> in the loop body) as a
  function of its tree, and the number of its value exports that a type pattern moves
  to the type exports. Lemma \<open>processFile_parsed\<close> relates both to \<open>processFile\<close>.
\<close>

definition clauseOf :: "Config \<Rightarrow> node \<Rightarrow> string list" where
  "clauseOf cfg tree =
     filter (\<lambda>name. \<not> shouldBeType name (typePatterns cfg)) (fst (extractExports tree)) @
     map typeSpecifier
       (snd (extractExports tree) @
        filter (\<lambda>name. shouldBeType name (typePatterns cfg)) (fst (extractExports tree)))"

definition reclassified :: "Config \<Rightarrow> node \<Rightarrow> nat" where
  "reclassified cfg tree =
     length (filter (\<lambda>name. shouldBeType name (typePatterns cfg)) (fst (extractExports tree)))"

text \<open>
  What a component file hands to the map of exports: its combined export list when the
  file is read and parsed and the list is not empty, nothing otherwise.
\<close>

definition contribution :: "Config \<Rightarrow> env \<Rightarrow> string \<Rightarrow> string \<Rightarrow> string list option" where
  "contribution cfg e dir file =
     (case sourceFile e (join dir file) of
        Inl err \<Rightarrow> None
      | Inr tree \<Rightarrow> if clauseOf cfg tree = [] then None else Some (clauseOf cfg tree))"

definition contributes :: "Config \<Rightarrow> env \<Rightarrow> string \<Rightarrow> string \<Rightarrow> bool" where
  "contributes cfg e dir file = (contribution cfg e dir file \<noteq> None)"

text \<open>
  The console and file system events of one turn of the loop, for the file that is the
  \<open>k\<close>-th to be processed: the read, then the notices of the names moved to the type
  exports (under \<^verbatim>\<open>verbose\<close>) or the warning of a failed file, then the progress line
  (under \<^verbatim>\<open>verbose\<close>).
\<close>

definition markNotices :: "Config \<Rightarrow> string \<Rightarrow> string list \<Rightarrow> event list" where
  "markNotices cfg file names =
     concat (map (\<lambda>name.
       if shouldBeType name (typePatterns cfg) \<and> verbose cfg
       then [Log (''Marking '' @ [dq] @ name @ [dq] @ '' in '' @ file @ '' as a type export'')
               Highlight]
       else []) names)"

definition turnEvents :: "Config \<Rightarrow> env \<Rightarrow> string \<Rightarrow> nat \<Rightarrow> nat \<Rightarrow> string \<Rightarrow> event list" where
  "turnEvents cfg e dir fileCount k file =
     [ReadFile (join dir file)] @
     (case sourceFile e (join dir file) of
        Inr tree \<Rightarrow> markNotices cfg file (fst (extractExports tree))
      | Inl err \<Rightarrow> [ConsoleWarn (''Warning: Could not process file '' @ file @ '':'') err]) @
     (if verbose cfg then [Progress k fileCount] else [])"

text \<open>The contributions of the files of one base name, in the order of the files.\<close>

definition contributionsFor :: "Config \<Rightarrow> env \<Rightarrow> string \<Rightarrow> string list \<Rightarrow> string \<Rightarrow> string list list" where
  "contributionsFor cfg e dir files k =
     List.map_filter (\<lambda>file. if componentNameOf file = k then contribution cfg e dir file else None)
       files"

text \<open>The distinct elements of a list, each at the place of its first occurrence.\<close>

function firstOccurrences :: "'a list \<Rightarrow> 'a list" where
  "firstOccurrences [] = []"
| "firstOccurrences (x # xs) = x # firstOccurrences (removeAll x xs)"
  by pat_completeness auto
termination
  by (relation "measure length") (auto simp: less_Suc_eq_le)

text \<open>The last element of a list, if it has one.\<close>

definition lastOption :: "'a list \<Rightarrow> 'a option" where
  "lastOption xs = (if xs = [] then None else Some (last xs))"

text \<open>The export list stored under a key, and the statement rendered for a key.\<close>

definition exportsOf :: "loopState \<Rightarrow> string \<Rightarrow> string list" where
  "exportsOf ls k = (case mapGet (componentExports ls) k of Some exports \<Rightarrow> exports | None \<Rightarrow> [])"

definition statementFor :: "Config \<Rightarrow> bool \<Rightarrow> loopState \<Rightarrow> string \<Rightarrow> string" where
  "statementFor cfg useExplicit ls k =
     statement cfg (exportsOf ls k) k (moduleExtension cfg useExplicit (fileExtensions ls) k)"

text \<open>
  The two layouts of a statement as the specification words them: one line, or one
  name per line, indented, each but the last followed by a comma, between an opening
  and a closing line.
\<close>

definition unlines :: "string list \<Rightarrow> string" where
  "unlines ls = concat (map (\<lambda>l. l @ [nl]) ls)"

fun nameLines :: "string list \<Rightarrow> string list" where
  "nameLines [] = []"
| "nameLines [x] = [''  '' @ x]"
| "nameLines (x # y # ys) = (''  '' @ x @ '','') # nameLines (y # ys)"

definition moduleSpecifier :: "Config \<Rightarrow> bool \<Rightarrow> loopState \<Rightarrow> string \<Rightarrow> string" where
  "moduleSpecifier cfg useExplicit ls k =
     ''./'' @ k @ moduleExtension cfg useExplicit (fileExtensions ls) k"

definition singleLine :: "string list \<Rightarrow> string \<Rightarrow> string" where
  "singleLine names specifier =
     unlines [''export { '' @ joinWith '', '' names @ '' } from '' @ [dq] @ specifier @ [dq] @ '';'']"

definition multiLine :: "string list \<Rightarrow> string \<Rightarrow> string" where
  "multiLine names specifier =
     unlines (''export {'' # nameLines names @ [''} from '' @ [dq] @ specifier @ [dq] @ '';''])"

text \<open>
  Everything a run emits, once the directory is listed, before the text is written or
  shown; the events of the \<^verbatim>\<open>finally\<close> block; and the line the \<^verbatim>\<open>catch\<close> block reports
  first for an error, by its code.
\<close>

definition eventsBeforeOutput :: "Config \<Rightarrow> env \<Rightarrow> string \<Rightarrow> string list \<Rightarrow> event list" where
  "eventsBeforeOutput cfg e dir files =
     extensionNotices cfg e @ monorepoNotice cfg e @ [Stat dir] @ banner @
     [ Log ''Starting index generation for UI components'' Info,
       Log (''Scanning directory: '' @ dir) Info,
       Readdir dir ] @
     filesFound cfg (componentFilesOf cfg files) @
     [Log ''Processing component files...'' Info] @
     emitted (processFiles cfg e dir (componentFilesOf cfg files)) @
     afterLoop cfg e (componentFilesOf cfg files) (processFiles cfg e dir (componentFilesOf cfg files))"

definition closing :: "event list" where
  "closing = [ConsoleLog rule, Log ''Generation complete!'' Success, ConsoleLog rule]"

definition userMessage :: "FileSystemError \<Rightarrow> string" where
  "userMessage err =
     (if code err = Some ''EACCES'' then ''Permission denied: Cannot access '' @ pathText err
      else if code err = Some ''ENAMETOOLONG'' then ''Path too long: '' @ pathText err
      else if code err = None \<or> code err = Some [] then ''Unexpected error: '' @ message err
      else ''Operation failed: '' @ message err)"

text \<open>The text a run renders once the directory is listed as \<open>files\<close>.\<close>

definition renderedText :: "Config \<Rightarrow> env \<Rightarrow> string list \<Rightarrow> string" where
  "renderedText cfg e files =
     (let ls = processFiles cfg e (resolveComponentsDir cfg e) (componentFilesOf cfg files);
          u = useExplicitExtensions cfg e
      in headerComment cfg @ concat (map (statementFor cfg u ls) (componentNames cfg ls)))"

section \<open>A sample directory\<close>

text \<open>
  A project that is neither an ES module project nor a monorepo, with the default
  directory. Its files:
  \<^item> \<^verbatim>\<open>button.tsx\<close>: \<^verbatim>\<open>export const Button = ...; export interface ButtonProps {}\<close>
  \<^item> \<^verbatim>\<open>card.tsx\<close>: \<^verbatim>\<open>export const Card = ...\<close>
  \<^item> \<^verbatim>\<open>form.tsx\<close>: \<^verbatim>\<open>export const Form = ...; export function FormField() {}\<close>,
    \<^verbatim>\<open>export type FormState = ...; export const formOptions = ...\<close>
  \<^item> \<^verbatim>\<open>broken.ts\<close>, which cannot be read (\<^verbatim>\<open>EACCES\<close>)
  \<^item> \<^verbatim>\<open>index.ts\<close> and \<^verbatim>\<open>button.test.tsx\<close>, which the default patterns exclude.
\<close>

definition sampleDir :: string where
  "sampleDir = ''/proj/src/components/ui''"

definition buttonTsx :: node where
  "buttonTsx =
     OtherNode [ VariableStatement [ExportKeyword] [Identifier ''Button''] [],
                 InterfaceDeclaration [ExportKeyword] ''ButtonProps'' [] ]"

definition cardTsx :: node where
  "cardTsx = OtherNode [VariableStatement [ExportKeyword] [Identifier ''Card''] []]"

definition formTsx :: node where
  "formTsx =
     OtherNode [ VariableStatement [ExportKeyword] [Identifier ''Form''] [],
                 FunctionDeclaration [ExportKeyword] (Some ''FormField'') [],
                 TypeAliasDeclaration [ExportKeyword] ''FormState'' [],
                 VariableStatement [ExportKeyword] [Identifier ''formOptions''] [] ]"

definition permissionDenied :: "string \<Rightarrow> FileSystemError" where
  "permissionDenied p =
     \<lparr> code = Some ''EACCES'', path = Some p, message = ''EACCES: permission denied'' \<rparr>"

definition noSuchFile :: "string \<Rightarrow> FileSystemError" where
  "noSuchFile p =
     \<lparr> code = Some ''ENOENT'', path = Some p, message = ''ENOENT: no such file or directory'' \<rparr>"

definition sampleSources :: "string \<Rightarrow> FileSystemError + node" where
  "sampleSources p =
     (if p = ''/proj/src/components/ui/button.tsx'' then Inr buttonTsx
      else if p = ''/proj/src/components/ui/card.tsx'' then Inr cardTsx
      else if p = ''/proj/src/components/ui/form.tsx'' then Inr formTsx
      else Inl (permissionDenied p))"

definition sampleFiles :: "string list" where
  "sampleFiles = [''index.ts'', ''form.tsx'', ''card.tsx'', ''button.tsx'', ''broken.ts'', ''button.test.tsx'']"

definition sampleEnv :: env where
  "sampleEnv =
     \<lparr> cwd = ''/proj'', explicitExtensionsDetected = False, isMonorepo = False,
       monorepoUIPath = None,
       statThrows = (\<lambda>p. None),
       readdirResult = (\<lambda>p. Inr sampleFiles),
       sourceFile = sampleSources,
       writeFileThrows = (\<lambda>p t. None),
       elapsed = ''0.01'' \<rparr>"

definition sampleWorld :: world where
  "sampleWorld =
     \<lparr> trace = [], exitCode = 0,
       disk = [''/proj/src/components/ui/index.ts'' \<mapsto> ''stale''] \<rparr>"

text \<open>
  The same project when the directory does not exist, when it cannot be listed, and
  when the output file cannot be written.
\<close>

definition missingEnv :: env where
  "missingEnv = sampleEnv\<lparr>statThrows := (\<lambda>p. Some (noSuchFile p))\<rparr>"

definition unlistableEnv :: env where
  "unlistableEnv = sampleEnv\<lparr>readdirResult := (\<lambda>p. Inl (permissionDenied p))\<rparr>"

definition readOnlyEnv :: env where
  "readOnlyEnv = sampleEnv\<lparr>writeFileThrows := (\<lambda>p t. Some (permissionDenied p))\<rparr>"

definition sampleText :: string where
  "sampleText =
     defaultHeaderComment @
     unlines
       [ ''export { Button, type ButtonProps } from '' @ [dq] @ ''./button'' @ [dq] @ '';'',
         ''export { Card } from '' @ [dq] @ ''./card'' @ [dq] @ '';'',
         ''export {'',
         ''  Form,'',
         ''  FormField,'',
         ''  type FormState,'',
         ''  type formOptions'',
         ''} from '' @ [dq] @ ''./form'' @ [dq] @ '';'' ]"

text \<open>
  Variants of the sample. Two files of one base name: \<^verbatim>\<open>button.tsx\<close> as above, listed
  with a \<^verbatim>\<open>button.ts\<close> that holds \<^verbatim>\<open>export const buttonVariants = ...\<close>, or that holds
  only \<^verbatim>\<open>export * from "./button-base"\<close> (which yields no export), or that cannot be read
  (as every other path of \<open>sampleSources\<close>). In the trees of the samples, child nodes
  of other kinds are left out: \<^verbatim>\<open>visit\<close> collects nothing from them.
\<close>

definition variantsTs :: node where
  "variantsTs = OtherNode [VariableStatement [ExportKeyword] [Identifier ''buttonVariants''] []]"

definition starTs :: node where
  "starTs = OtherNode [ExportDeclaration None []]"

definition twinFiles :: "string list" where
  "twinFiles = [''button.tsx'', ''button.ts'']"

definition variantsEnv :: env where
  "variantsEnv =
     sampleEnv\<lparr>readdirResult := (\<lambda>p. Inr [''button.ts'', ''button.tsx'']),
       sourceFile :=
         (\<lambda>p. if p = ''/proj/src/components/ui/button.ts'' then Inr variantsTs else sampleSources p)\<rparr>"

definition starEnv :: env where
  "starEnv =
     sampleEnv\<lparr>readdirResult := (\<lambda>p. Inr twinFiles),
       sourceFile :=
         (\<lambda>p. if p = ''/proj/src/components/ui/button.ts'' then Inr starTs else sampleSources p)\<rparr>"

definition unreadableTwinEnv :: env where
  "unreadableTwinEnv = sampleEnv\<lparr>readdirResult := (\<lambda>p. Inr twinFiles)\<rparr>"

definition aloneEnv :: env where
  "aloneEnv = sampleEnv\<lparr>readdirResult := (\<lambda>p. Inr [''button.tsx''])\<rparr>"

definition unsortedConfig :: Config where
  "unsortedConfig = defaultConfig\<lparr>sortAlphabetically := False\<rparr>"

definition thresholdTwoConfig :: Config where
  "thresholdTwoConfig = defaultConfig\<lparr>singleLineThreshold := 2\<rparr>"

definition forcedConfig :: Config where
  "forcedConfig = defaultConfig\<lparr>forceExplicitExtensions := True\<rparr>"

definition overrideConfig :: Config where
  "overrideConfig = defaultConfig\<lparr>extensionOverride := ''.jsx''\<rparr>"

text \<open>
  A run with \<^verbatim>\<open>--output exports.ts\<close> in a directory that holds a declaration file and
  the \<^verbatim>\<open>exports.ts\<close> of an earlier run, whose one statement is
  \<^verbatim>\<open>export { Button } from "./button";\<close>.
\<close>

definition exportsConfig :: Config where
  "exportsConfig = defaultConfig\<lparr>outputFile := ''exports.ts''\<rparr>"

definition earlierOutputTs :: node where
  "earlierOutputTs =
     OtherNode [ExportDeclaration (Some (NamedExports [ExportSpecifier False ''Button''])) []]"

definition rerunFiles :: "string list" where
  "rerunFiles = [''button.d.ts'', ''exports.ts'']"

definition rerunEnv :: env where
  "rerunEnv =
     sampleEnv\<lparr>readdirResult := (\<lambda>p. Inr rerunFiles),
       sourceFile :=
         (\<lambda>p. if p = ''/proj/src/components/ui/exports.ts'' then Inr earlierOutputTs
              else Inl (noSuchFile p))\<rparr>"

section \<open>Properties of the extractor and of the loop\<close>

lemma fold_pushElement:
  "fold pushElement els (ex, ty) =
     (ex @ map nameText (filter (\<lambda>el. \<not> isTypeOnly el) els),
      ty @ map nameText (filter isTypeOnly els))"
  by (induction els arbitrary: ex ty) auto

lemma fold_pushDeclaration:
  "fold pushDeclaration ds (ex, ty) = (ex @ concat (map (\<lambda>d. case d of Identifier n \<Rightarrow> [n] | BindingPattern \<Rightarrow> []) ds), ty)"
proof (induction ds arbitrary: ex ty)
  case Nil
  then show ?case by simp
next
  case (Cons d ds)
  then show ?case by (cases d) auto
qed

lemma collect_append:
  "collect n (ex, ty) = (ex @ ownExports n, ty @ ownTypeExports n)"
  unfolding ownExports_def ownTypeExports_def
  by (induction n "(ex, ty)" rule: collect.induct)
     (auto simp: fold_pushElement fold_pushDeclaration)

lemma visit_append:
  "visit n (ex, ty) =
     (ex @ concat (map ownExports (nodes n)), ty @ concat (map ownTypeExports (nodes n)))"
  "forEachChild ns (ex, ty) =
     (ex @ concat (map ownExports (nodesOf ns)), ty @ concat (map ownTypeExports (nodesOf ns)))"
  by (induction n "(ex, ty)" and ns "(ex, ty)" arbitrary: ex ty and ex ty rule: visit_forEachChild.induct)
     (auto simp: collect_append)

lemma extractExports_nodes:
  "extractExports tree =
     (concat (map ownExports (nodes tree)), concat (map ownTypeExports (nodes tree)))"
  by (simp add: extractExports_def visit_append)

lemma isExportedTypeDeclaration_own:
  "isExportedTypeDeclaration foo n \<Longrightarrow> foo \<in> set (ownTypeExports n)"
  by (cases "(foo, n)" rule: isExportedTypeDeclaration.cases)
     (auto simp: ownTypeExports_def)

lemma isExportedVariable_own:
  "isExportedVariable foo n \<Longrightarrow> foo \<in> set (ownExports n)"
  by (cases "(foo, n)" rule: isExportedVariable.cases)
     (auto simp: ownExports_def fold_pushDeclaration intro!: bexI[where x="Identifier foo"])

lemma exportsTypeDeclaration_extracted:
  "exportsTypeDeclaration foo tree \<Longrightarrow> foo \<in> set (snd (extractExports tree))"
  by (auto simp: exportsTypeDeclaration_def extractExports_nodes list_ex_iff
           dest: isExportedTypeDeclaration_own)

lemma exportsVariable_extracted:
  "exportsVariable foo tree \<Longrightarrow> foo \<in> set (fst (extractExports tree))"
  by (auto simp: exportsVariable_def extractExports_nodes list_ex_iff
           dest: isExportedVariable_own)

lemma classify_eq:
  "classify cfg file names (fe, fte, ls) =
     (fe @ filter (\<lambda>name. \<not> shouldBeType name (typePatterns cfg)) names,
      fte @ filter (\<lambda>name. shouldBeType name (typePatterns cfg)) names,
      ls\<lparr>typesDetectedCount :=
            typesDetectedCount ls + length (filter (\<lambda>name. shouldBeType name (typePatterns cfg)) names),
         emitted := emitted ls @ markNotices cfg file names\<rparr>)"
  by (induction names arbitrary: fe fte ls) (auto simp: markNotices_def)

lemma processFile_parsed:
  assumes "sourceFile e (join dir file) = Inr tree"
  shows "processFile cfg e dir n file ls =
     ls\<lparr>componentExports :=
          (if clauseOf cfg tree = [] then componentExports ls
           else mapSet (componentNameOf file) (clauseOf cfg tree) (componentExports ls)),
        fileExtensions := mapSet (componentNameOf file) (extname file) (fileExtensions ls),
        processedCount := processedCount ls + 1,
        typesDetectedCount := typesDetectedCount ls + reclassified cfg tree,
        emitted := emitted ls @ turnEvents cfg e dir n (processedCount ls + 1) file\<rparr>"
  using assms
  by (cases "extractExports tree"; cases ls)
     (simp add: processFile_def classify_eq clauseOf_def reclassified_def turnEvents_def
        updateProgress_def Let_def)

lemma processFile_failed:
  assumes "sourceFile e (join dir file) = Inl err"
  shows "processFile cfg e dir n file ls =
     ls\<lparr>fileExtensions := mapSet (componentNameOf file) (extname file) (fileExtensions ls),
        processedCount := processedCount ls + 1,
        emitted := emitted ls @ turnEvents cfg e dir n (processedCount ls + 1) file\<rparr>"
  using assms
  by (cases ls) (simp add: processFile_def turnEvents_def updateProgress_def Let_def)

lemma processFile_componentExports:
  "componentExports (processFile cfg e dir n file ls) =
     (case contribution cfg e dir file of
        None \<Rightarrow> componentExports ls
      | Some c \<Rightarrow> mapSet (componentNameOf file) c (componentExports ls))"
  by (cases "sourceFile e (join dir file)")
     (simp_all add: processFile_parsed processFile_failed contribution_def)

lemma processFile_fileExtensions:
  "fileExtensions (processFile cfg e dir n file ls) =
     mapSet (componentNameOf file) (extname file) (fileExtensions ls)"
  by (cases "sourceFile e (join dir file)")
     (simp_all add: processFile_parsed processFile_failed)

lemma processFile_processedCount:
  "processedCount (processFile cfg e dir n file ls) = processedCount ls + 1"
  by (cases "sourceFile e (join dir file)")
     (simp_all add: processFile_parsed processFile_failed)

lemma processFile_emitted:
  "emitted (processFile cfg e dir n file ls) =
     emitted ls @ turnEvents cfg e dir n (processedCount ls + 1) file"
  by (cases "sourceFile e (join dir file)")
     (simp_all add: processFile_parsed processFile_failed)

lemma processFile_typesDetectedCount:
  "typesDetectedCount (processFile cfg e dir n file ls) =
     typesDetectedCount ls +
       (case sourceFile e (join dir file) of Inr tree \<Rightarrow> reclassified cfg tree | Inl err \<Rightarrow> 0)"
  by (cases "sourceFile e (join dir file)")
     (simp_all add: processFile_parsed processFile_failed)

lemma mapKeys_mapSet:
  "mapKeys (mapSet k v m) = (if k \<in> set (mapKeys m) then mapKeys m else mapKeys m @ [k])"
  by (induction m) (force simp: mapKeys_def)+

lemma mapGet_mapSet:
  "mapGet (mapSet k v m) k' = (if k' = k then Some v else mapGet m k')"
  by (induction m) (auto simp: mapGet_def)

lemma mapGet_None_iff: "mapGet m k = None \<longleftrightarrow> k \<notin> set (mapKeys m)"
  by (simp add: mapGet_def mapKeys_def map_of_eq_None_iff)

lemma lastOption_Cons:
  "lastOption (x # xs) = (case lastOption xs of None \<Rightarrow> Some x | Some y \<Rightarrow> Some y)"
  by (simp add: lastOption_def)

lemma lastOption_Nil: "lastOption [] = None"
  by (simp add: lastOption_def)

lemma firstOccurrences_set: "set (firstOccurrences xs) = set xs"
  by (induction xs rule: firstOccurrences.induct) auto

lemma firstOccurrences_distinct: "distinct (firstOccurrences xs)"
  by (induction xs rule: firstOccurrences.induct) (auto simp: firstOccurrences_set)

lemma firstOccurrences_id: "distinct xs \<Longrightarrow> firstOccurrences xs = xs"
  by (induction xs rule: firstOccurrences.induct) auto

lemma removeAll_filter_notin:
  "removeAll k (filter (\<lambda>x. x \<notin> S) xs) = filter (\<lambda>x. x \<notin> insert k S) xs"
  by (induction xs) auto

lemma processFiles_keys:
  "mapKeys (componentExports (fold (processFile cfg e dir n) files ls)) =
     mapKeys (componentExports ls) @
     firstOccurrences
       (filter (\<lambda>k. k \<notin> set (mapKeys (componentExports ls)))
          (map componentNameOf (filter (contributes cfg e dir) files)))"
proof (induction files arbitrary: ls)
  case Nil
  then show ?case by simp
next
  case (Cons f fs)
  show ?case
  proof (cases "contribution cfg e dir f")
    case None
    then show ?thesis
      by (simp add: Cons.IH processFile_componentExports contributes_def)
  next
    case (Some c)
    then show ?thesis
      by (simp add: Cons.IH processFile_componentExports contributes_def mapKeys_mapSet
            removeAll_filter_notin)
  qed
qed

lemma processFiles_get:
  "mapGet (componentExports (fold (processFile cfg e dir n) files ls)) k =
     (case lastOption (contributionsFor cfg e dir files k) of
        None \<Rightarrow> mapGet (componentExports ls) k
      | Some c \<Rightarrow> Some c)"
proof (induction files arbitrary: ls)
  case Nil
  then show ?case by (simp add: contributionsFor_def lastOption_Nil)
next
  case (Cons f fs)
  show ?case
    by (cases "contribution cfg e dir f")
       (auto simp: Cons.IH processFile_componentExports contributionsFor_def
          lastOption_Cons mapGet_mapSet split: option.splits)
qed

lemma processFiles_extension:
  "mapGet (fileExtensions (fold (processFile cfg e dir n) files ls)) k =
     (case lastOption (map extname (filter (\<lambda>file. componentNameOf file = k) files)) of
        None \<Rightarrow> mapGet (fileExtensions ls) k
      | Some ext \<Rightarrow> Some ext)"
proof (induction files arbitrary: ls)
  case Nil
  then show ?case by (simp add: lastOption_Nil)
next
  case (Cons f fs)
  show ?case
    by (auto simp: Cons.IH processFile_fileExtensions lastOption_Cons mapGet_mapSet
          split: option.splits)
qed

lemma processFiles_count:
  "processedCount (fold (processFile cfg e dir n) files ls) = processedCount ls + length files"
  by (induction files arbitrary: ls) (simp_all add: processFile_processedCount)

lemma processFiles_typesDetected:
  "typesDetectedCount (fold (processFile cfg e dir n) files ls) =
     typesDetectedCount ls +
     sum_list (map (\<lambda>file. case sourceFile e (join dir file) of
                               Inr tree \<Rightarrow> reclassified cfg tree | Inl err \<Rightarrow> 0) files)"
  by (induction files arbitrary: ls) (simp_all add: processFile_typesDetectedCount)

lemma enumerate_shift:
  "map (\<lambda>(i, x). h (Suc i) x) (enumerate k xs) = map (\<lambda>(i, x). h i x) (enumerate (Suc k) xs)"
  by (induction xs arbitrary: k) simp_all

lemma processFiles_emitted:
  "emitted (fold (processFile cfg e dir n) files ls) =
     emitted ls @
     concat (map (\<lambda>(i, file). turnEvents cfg e dir n (processedCount ls + i) file)
               (enumerate 1 files))"
proof (induction files arbitrary: ls)
  case Nil
  then show ?case by simp
next
  case (Cons f fs)
  have "map (\<lambda>(i, file). turnEvents cfg e dir n (Suc (processedCount ls + i)) file)
          (enumerate (Suc 0) fs) =
        map (\<lambda>(i, file). turnEvents cfg e dir n (processedCount ls + i) file)
          (enumerate (Suc (Suc 0)) fs)"
    using enumerate_shift [of "\<lambda>i. turnEvents cfg e dir n (processedCount ls + i)" "Suc 0" fs]
    by simp
  then show ?case
    by (simp add: Cons.IH processFile_emitted processFile_processedCount)
qed

lemma renderStatements_keys:
  "set names \<subseteq> set (mapKeys (componentExports ls)) \<Longrightarrow>
   renderStatements cfg u ls names content =
     Inr (content @ concat (map (statementFor cfg u ls) names))"
proof (induction names arbitrary: content)
  case Nil
  then show ?case by simp
next
  case (Cons k ks)
  then obtain exports where "mapGet (componentExports ls) k = Some exports"
    using mapGet_None_iff [of "componentExports ls" k] by (cases "mapGet (componentExports ls) k") auto
  with Cons show ?case
    by (simp add: statementFor_def exportsOf_def)
qed

lemma componentNames_set: "set (componentNames cfg ls) = set (mapKeys (componentExports ls))"
  by (simp add: componentNames_def)

lemma indexContent_eq:
  "indexContent cfg u ls =
     Inr (headerComment cfg @ concat (map (statementFor cfg u ls) (componentNames cfg ls)))"
  by (simp add: indexContent_def renderStatements_keys componentNames_set)

lemma writesOf_append: "writesOf (xs @ ys) = writesOf xs @ writesOf ys"
  by (induction xs rule: writesOf.induct) simp_all

lemma readsOf_append: "readsOf (xs @ ys) = readsOf xs @ readsOf ys"
  by (induction xs rule: readsOf.induct) simp_all

lemma writesOf_concat_quiet:
  "(\<And>x. x \<in> set xs \<Longrightarrow> writesOf (g x) = []) \<Longrightarrow> writesOf (concat (map g xs)) = []"
  by (induction xs) (simp_all add: writesOf_append)

lemma readsOf_concat_quiet:
  "(\<And>x. x \<in> set xs \<Longrightarrow> readsOf (g x) = []) \<Longrightarrow> readsOf (concat (map g xs)) = []"
  by (induction xs) (simp_all add: readsOf_append)

lemma markNotices_quiet: "writesOf (markNotices cfg f names) = []" "readsOf (markNotices cfg f names) = []"
  unfolding markNotices_def
  by (rule writesOf_concat_quiet, simp) (rule readsOf_concat_quiet, simp)

lemma turnEvents_quiet:
  "writesOf (turnEvents cfg e dir n k f) = []"
  "readsOf (turnEvents cfg e dir n k f) = [join dir f]"
  by (simp_all add: turnEvents_def writesOf_append readsOf_append markNotices_quiet split: sum.splits)

lemma loop_events_quiet:
  "writesOf (concat (map (\<lambda>(i, f). turnEvents cfg e dir n (h i) f) (enumerate k files))) = []"
  "readsOf (concat (map (\<lambda>(i, f). turnEvents cfg e dir n (h i) f) (enumerate k files))) =
     map (join dir) files"
  by (induction files arbitrary: k) (simp_all add: writesOf_append readsOf_append turnEvents_quiet)

lemma processFiles_quiet:
  "writesOf (emitted (processFiles cfg e dir files)) = []"
  "readsOf (emitted (processFiles cfg e dir files)) = map (join dir) files"
  using loop_events_quiet [of cfg e dir "length files" "\<lambda>i. i" "Suc 0" files]
  by (simp_all add: processFiles_def processFiles_emitted initialLoopState_def)

lemma notices_quiet:
  "writesOf (extensionNotices cfg e) = []" "readsOf (extensionNotices cfg e) = []"
  "writesOf (monorepoNotice cfg e) = []" "readsOf (monorepoNotice cfg e) = []"
  "writesOf banner = []" "readsOf banner = []"
  "writesOf (afterLoop cfg e files ls) = []" "readsOf (afterLoop cfg e files ls) = []"
  "writesOf (errorReport err) = []" "readsOf (errorReport err) = []"
  by (simp_all add: extensionNotices_def monorepoNotice_def banner_def afterLoop_def
        errorReport_def split: option.splits)

lemma filesFound_quiet:
  "writesOf (filesFound cfg files) = []" "readsOf (filesFound cfg files) = []"
proof -
  have "writesOf (map (\<lambda>f. ConsoleLog (g f)) fs) = []" "readsOf (map (\<lambda>f. ConsoleLog (g f)) fs) = []"
    for g :: "string \<Rightarrow> string" and fs
    by (induction fs) simp_all
  then show "writesOf (filesFound cfg files) = []" "readsOf (filesFound cfg files) = []"
    by (simp_all add: filesFound_def writesOf_append readsOf_append)
qed

lemma sample_componentFiles:
  "componentFilesOf defaultConfig sampleFiles = [''form.tsx'', ''card.tsx'', ''button.tsx'', ''broken.ts'']"
  by (simp add: componentFilesOf_def sampleFiles_def defaultConfig_def defaultInclude_def
        defaultExclude_def endsWith_def test_def matches_def lit_def opt_def)

lemma sample_names:
  "componentNameOf ''form.tsx'' = ''form''" "componentNameOf ''card.tsx'' = ''card''"
  "componentNameOf ''button.tsx'' = ''button''" "componentNameOf ''broken.ts'' = ''broken''"
  "extname ''form.tsx'' = ''.tsx''" "extname ''card.tsx'' = ''.tsx''"
  "extname ''button.tsx'' = ''.tsx''" "extname ''broken.ts'' = ''.ts''"
  by (simp_all add: componentNameOf_def extname_def basename_def)

lemma nameLines_join:
  "xs \<noteq> [] \<Longrightarrow> ''  '' @ joinWith ('','' @ [nl] @ ''  '') xs @ [nl] = unlines (nameLines xs)"
  by (induction xs rule: nameLines.induct) (simp_all add: unlines_def)

lemma statement_single:
  "int (length xs) \<le> singleLineThreshold cfg \<Longrightarrow>
   statement cfg xs k ext = singleLine xs (''./'' @ k @ ext)"
  by (simp add: statement_def singleLine_def unlines_def)

lemma statement_multi:
  "\<not> int (length xs) \<le> singleLineThreshold cfg \<Longrightarrow> xs \<noteq> [] \<Longrightarrow>
   statement cfg xs k ext = multiLine xs (''./'' @ k @ ext)"
  using nameLines_join [of xs]
  by (simp add: statement_def multiLine_def unlines_def)

lemma mapGet_Nil: "mapGet [] k = None"
  by (simp add: mapGet_def)

lemma mapKeys_Nil: "mapKeys [] = []"
  by (simp add: mapKeys_def)

lemma processFiles_stored:
  "mapGet (componentExports (processFiles cfg e dir files)) k =
     lastOption (contributionsFor cfg e dir files k)"
  unfolding processFiles_def processFiles_get
  by (simp add: initialLoopState_def mapGet_Nil split: option.splits)

lemma processFiles_names:
  "mapKeys (componentExports (processFiles cfg e dir files)) =
     firstOccurrences (map componentNameOf (filter (contributes cfg e dir) files))"
  unfolding processFiles_def processFiles_keys
  by (simp add: initialLoopState_def mapKeys_Nil)

lemma processFiles_recorded_extension:
  "mapGet (fileExtensions (processFiles cfg e dir files)) k =
     lastOption (map extname (filter (\<lambda>file. componentNameOf file = k) files))"
  unfolding processFiles_def processFiles_extension
  by (simp add: initialLoopState_def mapGet_Nil split: option.splits)

lemma contributionsFor_mem:
  "c \<in> set (contributionsFor cfg e dir files k) \<longleftrightarrow>
     (\<exists>f \<in> set files. componentNameOf f = k \<and> contribution cfg e dir f = Some c)"
  by (induction files) (auto simp: contributionsFor_def split: option.splits)

lemma contribution_nonempty: "contribution cfg e dir f = Some c \<Longrightarrow> c \<noteq> []"
  by (auto simp: contribution_def split: sum.splits if_splits)

lemma stored_from_file:
  assumes "k \<in> set (mapKeys (componentExports (processFiles cfg e dir files)))"
  shows "\<exists>f \<in> set files. componentNameOf f = k \<and>
           contribution cfg e dir f = Some (exportsOf (processFiles cfg e dir files) k)"
proof -
  from assms obtain c where c: "mapGet (componentExports (processFiles cfg e dir files)) k = Some c"
    using mapGet_None_iff [of "componentExports (processFiles cfg e dir files)" k]
    by (cases "mapGet (componentExports (processFiles cfg e dir files)) k") auto
  then have "lastOption (contributionsFor cfg e dir files k) = Some c"
    by (simp add: processFiles_stored)
  then have "c \<in> set (contributionsFor cfg e dir files k)"
    by (auto simp: lastOption_def split: if_splits)
  then show ?thesis
    using c by (simp add: contributionsFor_mem exportsOf_def)
qed

lemma indexContent_rendered:
  "indexContent cfg (useExplicitExtensions cfg e)
     (processFiles cfg e (resolveComponentsDir cfg e) (componentFilesOf cfg files)) =
   Inr (renderedText cfg e files)"
  by (simp add: indexContent_eq renderedText_def Let_def)

lemma run_missing:
  assumes "statThrows e (resolveComponentsDir cfg e) = Some err" "code err = Some ''ENOENT''"
  shows "generateIndex cfg e w =
     w\<lparr>trace := trace w @ extensionNotices cfg e @ monorepoNotice cfg e @
          [ Stat (resolveComponentsDir cfg e),
            Log (''Directory not found: '' @ resolveComponentsDir cfg e) Error,
            Log ''Please check the path and try again'' Warning ] @ closing\<rparr>"
  using assms
  by (simp add: generateIndex_def tryBlock_def finallyBlock_def emit_def closing_def Let_def)

lemma run_stat_failed:
  assumes "statThrows e (resolveComponentsDir cfg e) = Some err" "code err \<noteq> Some ''ENOENT''"
  shows "generateIndex cfg e w =
     w\<lparr>trace := trace w @ extensionNotices cfg e @ monorepoNotice cfg e @
          [Stat (resolveComponentsDir cfg e)] @ errorReport err @
          [ if verbose cfg then ConsoleError ([nl] @ ''Detailed error information:'') err
            else Log ''Run with --verbose for more details'' Info ] @ closing,
        exitCode := 1\<rparr>"
  using assms
  by (simp add: generateIndex_def tryBlock_def finallyBlock_def catchBlock_def emit_def closing_def
        Let_def)

lemma run_readdir_failed:
  assumes "statThrows e (resolveComponentsDir cfg e) = None"
    "readdirResult e (resolveComponentsDir cfg e) = Inl err"
  shows "generateIndex cfg e w =
     w\<lparr>trace := trace w @ extensionNotices cfg e @ monorepoNotice cfg e @
          [Stat (resolveComponentsDir cfg e)] @ banner @
          [ Log ''Starting index generation for UI components'' Info,
            Log (''Scanning directory: '' @ resolveComponentsDir cfg e) Info,
            Readdir (resolveComponentsDir cfg e) ] @ errorReport err @
          [ if verbose cfg then ConsoleError ([nl] @ ''Detailed error information:'') err
            else Log ''Run with --verbose for more details'' Info ] @ closing,
        exitCode := 1\<rparr>"
  using assms
  by (simp add: generateIndex_def tryBlock_def finallyBlock_def catchBlock_def emit_def closing_def
        Let_def)

lemma run_dry:
  assumes "statThrows e (resolveComponentsDir cfg e) = None"
    "readdirResult e (resolveComponentsDir cfg e) = Inr files" "dryRun cfg"
  shows "generateIndex cfg e w =
     w\<lparr>trace := trace w @ eventsBeforeOutput cfg e (resolveComponentsDir cfg e) files @
          [ Log ''Dry run - index.ts would contain:'' Highlight,
            ConsoleLog dashes, ConsoleLog (renderedText cfg e files), ConsoleLog dashes,
            Log ''No files were modified (dry run mode)'' Info ] @ closing\<rparr>"
  using assms
  by (simp add: generateIndex_def tryBlock_def generateFrom_def writeOrShow_def finallyBlock_def
        emit_def closing_def eventsBeforeOutput_def indexContent_rendered Let_def)

lemma run_write_failed:
  assumes "statThrows e (resolveComponentsDir cfg e) = None"
    "readdirResult e (resolveComponentsDir cfg e) = Inr files" "\<not> dryRun cfg"
    "writeFileThrows e (join (resolveComponentsDir cfg e) (outputFile cfg)) (renderedText cfg e files)
       = Some err"
  shows "generateIndex cfg e w =
     w\<lparr>trace := trace w @ eventsBeforeOutput cfg e (resolveComponentsDir cfg e) files @
          [WriteFile (join (resolveComponentsDir cfg e) (outputFile cfg)) (renderedText cfg e files)] @
          errorReport err @
          [ if verbose cfg then ConsoleError ([nl] @ ''Detailed error information:'') err
            else Log ''Run with --verbose for more details'' Info ] @ closing,
        exitCode := 1\<rparr>"
  using assms
  by (simp add: generateIndex_def tryBlock_def generateFrom_def writeOrShow_def finallyBlock_def
        catchBlock_def emit_def closing_def eventsBeforeOutput_def indexContent_rendered Let_def)

lemma run_written:
  assumes "statThrows e (resolveComponentsDir cfg e) = None"
    "readdirResult e (resolveComponentsDir cfg e) = Inr files" "\<not> dryRun cfg"
    "writeFileThrows e (join (resolveComponentsDir cfg e) (outputFile cfg)) (renderedText cfg e files)
       = None"
  shows "generateIndex cfg e w =
     w\<lparr>trace := trace w @ eventsBeforeOutput cfg e (resolveComponentsDir cfg e) files @
          [ WriteFile (join (resolveComponentsDir cfg e) (outputFile cfg)) (renderedText cfg e files),
            Log (''Generated '' @ join (resolveComponentsDir cfg e) (outputFile cfg) @ '' ('' @
                 fileSizeKB (renderedText cfg e files) @ ''KB)'') Success,
            Log (''File contains '' @
                 showNat (length (componentExports
                   (processFiles cfg e (resolveComponentsDir cfg e) (componentFilesOf cfg files)))) @
                 '' component exports'') Success ] @ closing,
        disk := (disk w)(join (resolveComponentsDir cfg e) (outputFile cfg) \<mapsto>
                  renderedText cfg e files)\<rparr>"
  using assms
  by (simp add: generateIndex_def tryBlock_def generateFrom_def writeOrShow_def finallyBlock_def
        emit_def closing_def eventsBeforeOutput_def indexContent_rendered Let_def)

lemma eventsBeforeOutput_quiet:
  "writesOf (eventsBeforeOutput cfg e dir files) = []"
  "readsOf (eventsBeforeOutput cfg e dir files) = map (join dir) (componentFilesOf cfg files)"
  by (simp_all add: eventsBeforeOutput_def writesOf_append readsOf_append notices_quiet
        filesFound_quiet processFiles_quiet)

lemma closing_quiet: "writesOf closing = []" "readsOf closing = []"
  by (simp_all add: closing_def)

lemma errorReport_first: "\<exists>rest. errorReport err = Log (userMessage err) Error # rest"
  by (auto simp: errorReport_def userMessage_def split: option.splits)

lemma processFiles_distinct_names:
  "distinct (mapKeys (componentExports (processFiles cfg e dir files)))"
  by (simp add: processFiles_names firstOccurrences_distinct)

lemma componentNames_distinct:
  "distinct (componentNames cfg (processFiles cfg e dir files))"
  by (simp add: componentNames_def processFiles_distinct_names)

lemma resolve_sample:
  "\<not> isMonorepo e \<Longrightarrow> cwd e = ''/proj'' \<Longrightarrow> componentsDir cfg = ''src/components/ui'' \<Longrightarrow>
   resolveComponentsDir cfg e = sampleDir"
  by (simp add: resolveComponentsDir_def monorepoRedirect_def resolve_def sampleDir_def)

lemma writes_when_listed:
  assumes "statThrows e (resolveComponentsDir cfg e) = None"
    "readdirResult e (resolveComponentsDir cfg e) = Inr files" "\<not> dryRun cfg"
  shows "writesOf (trace (generateIndex cfg e w)) =
     writesOf (trace w) @ [(join (resolveComponentsDir cfg e) (outputFile cfg), renderedText cfg e files)]"
proof (cases "writeFileThrows e (join (resolveComponentsDir cfg e) (outputFile cfg))
    (renderedText cfg e files)")
  case None
  with assms show ?thesis
    by (simp add: run_written writesOf_append eventsBeforeOutput_quiet closing_quiet)
next
  case (Some err)
  with assms show ?thesis
    by (simp add: run_write_failed writesOf_append eventsBeforeOutput_quiet closing_quiet
          notices_quiet)
qed

lemma only_file_of_base_stored:
  assumes "f \<in> set files" "contribution cfg e dir f = Some c"
    "\<forall>g \<in> set files. componentNameOf g = componentNameOf f \<longrightarrow> g = f"
  shows "lastOption (contributionsFor cfg e dir files (componentNameOf f)) = Some c"
proof -
  have mem: "c \<in> set (contributionsFor cfg e dir files (componentNameOf f))"
    using assms(1,2) by (auto simp: contributionsFor_mem)
  have "c' = c" if "c' \<in> set (contributionsFor cfg e dir files (componentNameOf f))" for c'
    using that assms(2,3) by (auto simp: contributionsFor_mem)
  moreover from mem have "contributionsFor cfg e dir files (componentNameOf f) \<noteq> []"
    by auto
  ultimately show ?thesis
    by (simp add: lastOption_def)
qed

lemma statement_in_text:
  "k \<in> set names \<Longrightarrow> \<exists>before after. header @ concat (map g names) = before @ g k @ after"
proof -
  assume "k \<in> set names"
  then obtain xs ys where "names = xs @ k # ys"
    by (auto dest: split_list)
  then have "header @ concat (map g names) = (header @ concat (map g xs)) @ g k @ concat (map g ys)"
    by simp
  then show ?thesis by blast
qed

lemma only_file_of_base_rendered:
  assumes "f \<in> set files" "contribution cfg e dir f = Some c"
    "\<forall>g \<in> set files. componentNameOf g = componentNameOf f \<longrightarrow> g = f"
  shows "exportsOf (processFiles cfg e dir files) (componentNameOf f) = c \<and>
     (\<exists>before after. indexContent cfg u (processFiles cfg e dir files) =
        Inr (before @ statementFor cfg u (processFiles cfg e dir files) (componentNameOf f) @ after))"
proof -
  have stored: "mapGet (componentExports (processFiles cfg e dir files)) (componentNameOf f) = Some c"
    using only_file_of_base_stored [OF assms] by (simp add: processFiles_stored)
  then have "componentNameOf f \<in> set (componentNames cfg (processFiles cfg e dir files))"
    using mapGet_None_iff [of "componentExports (processFiles cfg e dir files)" "componentNameOf f"]
    by (simp add: componentNames_set)
  then show ?thesis
    using stored by (simp add: exportsOf_def indexContent_eq statement_in_text)
qed

lemma clauseOf_types:
  "foo \<in> set (snd (extractExports tree)) \<Longrightarrow> typeSpecifier foo \<in> set (clauseOf cfg tree)"
  by (simp add: clauseOf_def)

lemma clauseOf_values:
  "foo \<in> set (fst (extractExports tree)) \<Longrightarrow>
   (if shouldBeType foo (typePatterns cfg) then typeSpecifier foo else foo) \<in> set (clauseOf cfg tree)"
  by (simp add: clauseOf_def)

lemma contribution_parsed:
  "sourceFile e (join dir f) = Inr tree \<Longrightarrow> x \<in> set (clauseOf cfg tree) \<Longrightarrow>
   contribution cfg e dir f = Some (clauseOf cfg tree)"
  by (auto simp: contribution_def)

lemma override_applies_when_explicit:
  "extensionOverride cfg \<noteq> [] \<Longrightarrow>
   moduleExtension cfg True exts k =
     (if hd (extensionOverride cfg) = CHR ''.'' then extensionOverride cfg
      else ''.'' @ extensionOverride cfg)"
  by (simp add: moduleExtension_def)

lemma no_extension_without_explicit: "moduleExtension cfg False exts k = []"
  by (simp add: moduleExtension_def)

lemma nothing_included_header_only:
  "componentFilesOf cfg files = [] \<Longrightarrow> renderedText cfg e files = headerComment cfg"
  by (simp add: renderedText_def processFiles_def initialLoopState_def componentNames_def
        mapKeys_def Let_def)

lemma turnEvents_warning:
  "sourceFile e (join dir f) = Inl err \<Longrightarrow>
   ConsoleWarn (''Warning: Could not process file '' @ f @ '':'') err \<in> set (turnEvents cfg e dir n k f)"
  by (simp add: turnEvents_def)

lemma failed_file_warned_fold:
  "f \<in> set files \<Longrightarrow> sourceFile e (join dir f) = Inl err \<Longrightarrow>
   ConsoleWarn (''Warning: Could not process file '' @ f @ '':'') err
     \<in> set (emitted (fold (processFile cfg e dir n) files ls))"
proof (induction files arbitrary: ls)
  case Nil
  then show ?case by simp
next
  case (Cons g gs)
  have grows: "set (emitted ls') \<subseteq> set (emitted (fold (processFile cfg e dir n) gs ls'))" for ls'
    by (simp add: processFiles_emitted)
  show ?case
  proof (cases "f = g")
    case True
    with Cons.prems(2) have src: "sourceFile e (join dir g) = Inl err"
      by simp
    have "ConsoleWarn (''Warning: Could not process file '' @ g @ '':'') err
        \<in> set (emitted (processFile cfg e dir n g ls))"
      unfolding processFile_emitted set_append
      using turnEvents_warning [OF src] by blast
    with grows [of "processFile cfg e dir n g ls"] show ?thesis
      unfolding True by (simp only: fold_simps) blast
  next
    case False
    with Cons show ?thesis by simp
  qed
qed

lemma failed_file_warned:
  "f \<in> set files \<Longrightarrow> sourceFile e (join dir f) = Inl err \<Longrightarrow>
   ConsoleWarn (''Warning: Could not process file '' @ f @ '':'') err
     \<in> set (emitted (processFiles cfg e dir files))"
  unfolding processFiles_def by (rule failed_file_warned_fold)

lemma exports_ignore_failed_files_fold:
  "componentExports ls = componentExports ls' \<Longrightarrow>
   componentExports (fold (processFile cfg e dir n) files ls) =
   componentExports (fold (processFile cfg e dir n')
     (filter (\<lambda>f. \<not> isl (sourceFile e (join dir f))) files) ls')"
proof (induction files arbitrary: ls ls')
  case Nil
  then show ?case by simp
next
  case (Cons g gs)
  show ?case
  proof (cases "sourceFile e (join dir g)")
    case (Inl err)
    then have "componentExports (processFile cfg e dir n g ls) = componentExports ls'"
      by (simp add: processFile_componentExports contribution_def Cons.prems)
    with Inl show ?thesis
      using Cons.IH [of "processFile cfg e dir n g ls" ls'] by simp
  next
    case (Inr tree)
    have "componentExports (processFile cfg e dir n g ls) =
        componentExports (processFile cfg e dir n' g ls')"
      by (simp only: processFile_componentExports Cons.prems)
    with Inr show ?thesis
      using Cons.IH [of "processFile cfg e dir n g ls" "processFile cfg e dir n' g ls'"] by simp
  qed
qed

lemma exports_ignore_failed_files:
  "componentExports (processFiles cfg e dir files) =
   componentExports (processFiles cfg e dir (filter (\<lambda>f. \<not> isl (sourceFile e (join dir f))) files))"
  unfolding processFiles_def by (rule exports_ignore_failed_files_fold) simp

lemma processFile_stores_clause:
  assumes "sourceFile e (join dir f) = Inr tree" "x \<in> set (clauseOf cfg tree)"
  shows "mapGet (componentExports (processFile cfg e dir n f ls0)) (componentNameOf f) =
           Some (clauseOf cfg tree)"
    and "typesDetectedCount (processFile cfg e dir n f ls0) =
           typesDetectedCount ls0 + reclassified cfg tree"
proof -
  from assms(2) have "clauseOf cfg tree \<noteq> []"
    by auto
  then show "mapGet (componentExports (processFile cfg e dir n f ls0)) (componentNameOf f) =
           Some (clauseOf cfg tree)"
    by (simp add: processFile_parsed [OF assms(1)] mapGet_mapSet)
  show "typesDetectedCount (processFile cfg e dir n f ls0) =
           typesDetectedCount ls0 + reclassified cfg tree"
    by (simp add: processFile_parsed [OF assms(1)])
qed

section \<open>The pattern matcher and the default patterns\<close>

lemma nullable_lang: "nullable r \<longleftrightarrow> [] \<in> lang r"
  by (induction r) (auto intro: repeated_none)

lemma repeated_split:
  "x \<in> repeated A \<Longrightarrow> x = c # s \<Longrightarrow> \<exists>u v. s = u @ v \<and> c # u \<in> A \<and> v \<in> repeated A"
proof (induction x arbitrary: s rule: repeated.induct)
  case repeated_none
  then show ?case by simp
next
  case (repeated_more u v)
  show ?case
  proof (cases u)
    case Nil
    with repeated_more show ?thesis by simp
  next
    case (Cons d u')
    with repeated_more.hyps(1,2) repeated_more.prems show ?thesis by auto
  qed
qed

lemma repeated_Cons:
  "c # s \<in> repeated A \<longleftrightarrow> (\<exists>u v. s = u @ v \<and> c # u \<in> A \<and> v \<in> repeated A)"
proof
  assume "c # s \<in> repeated A"
  then show "\<exists>u v. s = u @ v \<and> c # u \<in> A \<and> v \<in> repeated A"
    by (rule repeated_split) simp
next
  assume "\<exists>u v. s = u @ v \<and> c # u \<in> A \<and> v \<in> repeated A"
  then obtain u v where "s = u @ v" "c # u \<in> A" "v \<in> repeated A"
    by blast
  then show "c # s \<in> repeated A"
    using repeated_more [of "c # u" A v] by simp
qed

lemma deriv_lang: "s \<in> lang (deriv c r) \<longleftrightarrow> c # s \<in> lang r"
proof (induction r arbitrary: s)
  case (Cat r1 r2)
  show ?case
  proof (cases "nullable r1")
    case True
    then show ?thesis
      using Cat by (auto simp: nullable_lang Cons_eq_append_conv)
  next
    case False
    then show ?thesis
      using Cat by (auto simp: nullable_lang Cons_eq_append_conv)
  qed
next
  case (Star r)
  then show ?case
    by (auto simp: repeated_Cons)
next
  case AnyChar
  then show ?case by auto
next
  case WordChar
  then show ?case by (auto simp: length_Suc_conv)
qed auto

lemma matches_lang: "matches r s \<longleftrightarrow> s \<in> lang r"
  unfolding matches_def
  by (induction s arbitrary: r) (simp_all add: nullable_lang deriv_lang)

lemma endsIn_iff: "endsIn t s \<longleftrightarrow> (\<exists>u. s = u @ t)"
proof
  assume "endsIn t s"
  then have "s = take (length s - length t) s @ t"
    by (metis append_take_drop_id endsIn_def)
  then show "\<exists>u. s = u @ t" ..
next
  assume "\<exists>u. s = u @ t"
  then show "endsIn t s"
    by (auto simp: endsIn_def)
qed

lemma lang_lit: "lang (lit t) = {t}"
  by (induction t) (auto simp: lit_def)

lemma anything: "s \<in> repeated {s. length s = Suc 0}"
proof (induction s)
  case Nil
  then show ?case by (rule repeated_none)
next
  case (Cons c s)
  then show ?case
    using repeated_more [of "[c]" "{s. length s = Suc 0}" s] by simp
qed

lemma matches_search:
  "matches (Cat (Star AnyChar) r) s \<longleftrightarrow> (\<exists>u v. s = u @ v \<and> v \<in> lang r)"
  unfolding matches_lang using anything by auto

lemma test_endsWith: "test (endsWith r) s \<longleftrightarrow> (\<exists>u v. s = u @ v \<and> v \<in> lang r)"
  using matches_search [of r s] by (simp add: test_def endsWith_def)

lemma test_endsWith_lit: "test (endsWith (lit t)) s \<longleftrightarrow> endsIn t s"
  by (simp add: test_endsWith lang_lit endsIn_iff)

lemma lang_lit_opt: "lang (Cat (lit t) (opt (Chr c))) = {t, t @ [c]}"
  by (auto simp: lang_lit opt_def)

lemma test_endsWith_lit_opt:
  "test (endsWith (Cat (lit t) (opt (Chr c)))) s \<longleftrightarrow> endsIn t s \<or> endsIn (t @ [c]) s"
  unfolding test_endsWith lang_lit_opt endsIn_iff by auto

lemma foldCase_lit: "foldCase (lit t) = lit (map toLowerAscii t)"
  by (induction t) (simp_all add: lit_def)

lemma test_endsWithI_lit:
  "test (endsWithI (lit t)) s \<longleftrightarrow> endsIn (map toLowerAscii t) (map toLowerAscii s)"
  using matches_search [of "lit (map toLowerAscii t)" "map toLowerAscii s"]
  by (simp add: test_def endsWithI_def foldCase_lit lang_lit endsIn_iff)

lemma lang_include: "lang (Cat (Chr CHR ''.'') (Alt (lit ''tsx'') (lit ''ts''))) = {''.tsx'', ''.ts''}"
  by (auto simp: lang_lit)

lemma default_include:
  "test defaultInclude f \<longleftrightarrow> endsIn ''.tsx'' f \<or> endsIn ''.ts'' f"
  unfolding defaultInclude_def test_endsWith lang_include endsIn_iff by auto

lemma default_exclude:
  "list_ex (\<lambda>pattern. test pattern f) defaultExclude \<longleftrightarrow>
     endsIn ''.d.ts'' f \<or> endsIn ''.test.ts'' f \<or> endsIn ''.test.tsx'' f \<or>
     endsIn ''.stories.ts'' f \<or> endsIn ''.stories.tsx'' f \<or> endsIn ''index.ts'' f"
  by (auto simp: defaultExclude_def test_endsWith_lit test_endsWith_lit_opt)

lemma excluded_directory_header_only:
  assumes "exclude cfg = defaultExclude"
    "\<forall>f \<in> set files.
       endsIn ''.d.ts'' f \<or> endsIn ''.test.ts'' f \<or> endsIn ''.test.tsx'' f \<or>
       endsIn ''.stories.ts'' f \<or> endsIn ''.stories.tsx'' f \<or> endsIn ''index.ts'' f"
  shows "componentFilesOf cfg files = []" "renderedText cfg e files = headerComment cfg"
proof -
  show "componentFilesOf cfg files = []"
    using assms by (auto simp: componentFilesOf_def filter_empty_conv default_exclude)
  then show "renderedText cfg e files = headerComment cfg"
    by (rule nothing_included_header_only)
qed

text \<open>
  The names that the comments of \<^verbatim>\<open>defaultConfig.typePatterns\<close> give as examples are
  matched, and so is any other letter case of them; plain component names are not.
\<close>

lemma default_type_pattern_examples:
  "list_all (\<lambda>name. shouldBeType name defaultTypePatterns)
     [''CarouselApi'', ''ButtonProps'', ''ChartConfig'', ''UseFormField'', ''TabsContext'',
      ''TooltipProvider'', ''DialogStore'', ''DialogRef'', ''SelectOptions'', ''useFormField'',
      ''buttonprops'']"
  "list_all (\<lambda>name. \<not> shouldBeType name defaultTypePatterns)
     [''Button'', ''Card'', ''Use'', ''PropsTable'', ''default'', ''buttonVariants'']"
  by code_simp+

lemma default_filter_examples:
  "componentFilesOf defaultConfig
     [''button.tsx'', ''card.ts'', ''types.d.ts'', ''button.test.ts'', ''button.test.tsx'',
      ''button.stories.ts'', ''button.stories.tsx'', ''index.ts'', ''reindex.ts'', ''index.tsx'',
      ''README.md'', ''button.tsx.bak'', ''.ts''] =
     [''button.tsx'', ''card.ts'', ''index.tsx'', ''.ts'']"
  by code_simp

section \<open>The sample directory, evaluated\<close>

lemma sample_loop:
  "processFiles defaultConfig sampleEnv sampleDir [''form.tsx'', ''card.tsx'', ''button.tsx'', ''broken.ts''] =
     \<lparr> componentExports =
         [ (''form'', [''Form'', ''FormField'', ''type FormState'', ''type formOptions'']),
           (''card'', [''Card'']),
           (''button'', [''Button'', ''type ButtonProps'']) ],
       fileExtensions =
         [(''form'', ''.tsx''), (''card'', ''.tsx''), (''button'', ''.tsx''), (''broken'', ''.ts'')],
       processedCount = 4, typesDetectedCount = 1,
       emitted =
         [ ReadFile ''/proj/src/components/ui/form.tsx'',
           ReadFile ''/proj/src/components/ui/card.tsx'',
           ReadFile ''/proj/src/components/ui/button.tsx'',
           ReadFile ''/proj/src/components/ui/broken.ts'',
           ConsoleWarn ''Warning: Could not process file broken.ts:''
             (permissionDenied ''/proj/src/components/ui/broken.ts'') ] \<rparr>"
  by code_simp

lemma sample_sorted_names:
  "sort [''form'', ''card'', ''button''] = [''button'', ''card'', ''form'']"
  by (simp add: less_eq_char_def less_char_def)

lemma defaultConfig_fields:
  "outputFile defaultConfig = ''index.ts''" "componentsDir defaultConfig = ''src/components/ui''"
  "sortAlphabetically defaultConfig" "singleLineThreshold defaultConfig = 3"
  "headerComment defaultConfig = defaultHeaderComment"
  "\<not> verbose defaultConfig" "\<not> dryRun defaultConfig"
  "\<not> forceExplicitExtensions defaultConfig" "extensionOverride defaultConfig = []"
  by (simp_all add: defaultConfig_def)

lemma sampleEnv_fields:
  "cwd sampleEnv = ''/proj''" "\<not> explicitExtensionsDetected sampleEnv" "\<not> isMonorepo sampleEnv"
  "statThrows sampleEnv p = None" "readdirResult sampleEnv p = Inr sampleFiles"
  "sourceFile sampleEnv = sampleSources" "writeFileThrows sampleEnv p t = None"
  "elapsed sampleEnv = ''0.01''"
  by (simp_all add: sampleEnv_def)

lemma sample_exportsOf:
  "exportsOf (processFiles defaultConfig sampleEnv sampleDir (componentFilesOf defaultConfig sampleFiles)) ''button''
     = [''Button'', ''type ButtonProps'']"
  "exportsOf (processFiles defaultConfig sampleEnv sampleDir (componentFilesOf defaultConfig sampleFiles)) ''form''
     = [''Form'', ''FormField'', ''type FormState'', ''type formOptions'']"
  "componentNames defaultConfig (processFiles defaultConfig sampleEnv sampleDir (componentFilesOf defaultConfig sampleFiles))
     = [''button'', ''card'', ''form'']"
  "moduleSpecifier defaultConfig (useExplicitExtensions defaultConfig sampleEnv)
     (processFiles defaultConfig sampleEnv sampleDir (componentFilesOf defaultConfig sampleFiles)) k = ''./'' @ k"
  by (simp_all add: sample_componentFiles sample_loop exportsOf_def mapGet_def componentNames_def
        mapKeys_def defaultConfig_fields sample_sorted_names moduleSpecifier_def moduleExtension_def
        useExplicitExtensions_def sampleEnv_fields)

lemma sample_dir: "resolveComponentsDir defaultConfig sampleEnv = sampleDir"
  "resolveComponentsDir defaultConfig missingEnv = sampleDir"
  "resolveComponentsDir defaultConfig unlistableEnv = sampleDir"
  "resolveComponentsDir defaultConfig readOnlyEnv = sampleDir"
  "resolveComponentsDir (defaultConfig\<lparr>dryRun := True\<rparr>) sampleEnv = sampleDir"
  "join sampleDir ''index.ts'' = ''/proj/src/components/ui/index.ts''"
  by (simp_all add: resolveComponentsDir_def monorepoRedirect_def sampleEnv_def missingEnv_def
        unlistableEnv_def readOnlyEnv_def defaultConfig_def resolve_def sampleDir_def join_def)

lemma sample_text: "renderedText defaultConfig sampleEnv sampleFiles = sampleText"
  by (simp add: renderedText_def sample_dir sample_componentFiles sample_loop Let_def
        componentNames_def mapKeys_def defaultConfig_fields sample_sorted_names statementFor_def
        exportsOf_def mapGet_def statement_def moduleExtension_def useExplicitExtensions_def
        sampleEnv_fields sampleText_def unlines_def)

lemma failureEnv_fields:
  "statThrows missingEnv p = Some (noSuchFile p)"
  "statThrows unlistableEnv p = None" "readdirResult unlistableEnv p = Inl (permissionDenied p)"
  "statThrows readOnlyEnv p = None" "readdirResult readOnlyEnv p = Inr sampleFiles"
  "writeFileThrows readOnlyEnv p t = Some (permissionDenied p)"
  "sourceFile readOnlyEnv = sampleSources"
  "\<not> explicitExtensionsDetected readOnlyEnv"
  by (simp_all add: missingEnv_def unlistableEnv_def readOnlyEnv_def sampleEnv_def)

lemma sampleWorld_fields:
  "trace sampleWorld = []" "exitCode sampleWorld = 0"
  "disk sampleWorld ''/proj/src/components/ui/index.ts'' = Some ''stale''"
  by (simp_all add: sampleWorld_def)

lemma unsorted_loop:
  "processFiles unsortedConfig sampleEnv sampleDir [''form.tsx'', ''card.tsx'', ''button.tsx'', ''broken.ts''] =
     \<lparr> componentExports =
         [ (''form'', [''Form'', ''FormField'', ''type FormState'', ''type formOptions'']),
           (''card'', [''Card'']),
           (''button'', [''Button'', ''type ButtonProps'']) ],
       fileExtensions =
         [(''form'', ''.tsx''), (''card'', ''.tsx''), (''button'', ''.tsx''), (''broken'', ''.ts'')],
       processedCount = 4, typesDetectedCount = 1,
       emitted =
         [ ReadFile ''/proj/src/components/ui/form.tsx'',
           ReadFile ''/proj/src/components/ui/card.tsx'',
           ReadFile ''/proj/src/components/ui/button.tsx'',
           ReadFile ''/proj/src/components/ui/broken.ts'',
           ConsoleWarn ''Warning: Could not process file broken.ts:''
             (permissionDenied ''/proj/src/components/ui/broken.ts'') ] \<rparr>"
  by code_simp

lemma unsorted_fields:
  "\<not> sortAlphabetically unsortedConfig"
  "componentFilesOf unsortedConfig fs = componentFilesOf defaultConfig fs"
  "resolveComponentsDir unsortedConfig sampleEnv = sampleDir"
  by (simp_all add: unsortedConfig_def componentFilesOf_def
        resolveComponentsDir_def monorepoRedirect_def sampleEnv_fields defaultConfig_fields resolve_def sampleDir_def)

lemma unsorted_names:
  "componentNames unsortedConfig
     (processFiles unsortedConfig sampleEnv sampleDir (componentFilesOf unsortedConfig sampleFiles)) =
     [''form'', ''card'', ''button'']"
  by (simp add: unsorted_fields sample_componentFiles unsorted_loop componentNames_def mapKeys_def)

lemma variants_loop:
  "processFiles defaultConfig variantsEnv sampleDir [''button.ts'', ''button.tsx''] =
     \<lparr> componentExports = [(''button'', [''Button'', ''type ButtonProps''])],
       fileExtensions = [(''button'', ''.tsx'')],
       processedCount = 2, typesDetectedCount = 0,
       emitted =
         [ ReadFile ''/proj/src/components/ui/button.ts'',
           ReadFile ''/proj/src/components/ui/button.tsx'' ] \<rparr>"
  by code_simp

lemma star_loop:
  "processFiles defaultConfig starEnv sampleDir [''button.tsx'', ''button.ts''] =
     \<lparr> componentExports = [(''button'', [''Button'', ''type ButtonProps''])],
       fileExtensions = [(''button'', ''.ts'')],
       processedCount = 2, typesDetectedCount = 0,
       emitted =
         [ ReadFile ''/proj/src/components/ui/button.tsx'',
           ReadFile ''/proj/src/components/ui/button.ts'' ] \<rparr>"
  by code_simp

lemma twin_componentFiles:
  "componentFilesOf defaultConfig [''button.ts'', ''button.tsx''] = [''button.ts'', ''button.tsx'']"
  "componentFilesOf defaultConfig twinFiles = [''button.tsx'', ''button.ts'']"
  by (simp_all add: componentFilesOf_def twinFiles_def defaultConfig_def defaultInclude_def
        defaultExclude_def endsWith_def test_def matches_def lit_def opt_def)

lemma twin_names:
  "componentNameOf ''button.ts'' = ''button''" "extname ''button.ts'' = ''.ts''"
  by (simp_all add: componentNameOf_def extname_def basename_def)

lemma twin_contributions:
  "contribution defaultConfig variantsEnv sampleDir ''button.ts'' = Some [''buttonVariants'']"
  "contribution defaultConfig variantsEnv sampleDir ''button.tsx'' = Some [''Button'', ''type ButtonProps'']"
  "contribution defaultConfig starEnv sampleDir ''button.tsx'' = Some [''Button'', ''type ButtonProps'']"
  "contribution defaultConfig starEnv sampleDir ''button.ts'' = None"
  "clauseOf defaultConfig starTs = []"
  "sourceFile starEnv (join sampleDir ''button.ts'') = Inr starTs"
  by code_simp+

lemma variantEnv_fields:
  "cwd variantsEnv = ''/proj''" "\<not> isMonorepo variantsEnv" "\<not> explicitExtensionsDetected variantsEnv"
  "statThrows variantsEnv p = None" "readdirResult variantsEnv p = Inr [''button.ts'', ''button.tsx'']"
  "cwd starEnv = ''/proj''" "\<not> isMonorepo starEnv" "\<not> explicitExtensionsDetected starEnv"
  "statThrows starEnv p = None" "readdirResult starEnv p = Inr twinFiles"
  "cwd unreadableTwinEnv = ''/proj''" "\<not> isMonorepo unreadableTwinEnv"
  "\<not> explicitExtensionsDetected unreadableTwinEnv"
  "statThrows unreadableTwinEnv p = None" "readdirResult unreadableTwinEnv p = Inr twinFiles"
  "cwd aloneEnv = ''/proj''" "\<not> isMonorepo aloneEnv" "\<not> explicitExtensionsDetected aloneEnv"
  "statThrows aloneEnv p = None" "readdirResult aloneEnv p = Inr [''button.tsx'']"
  "cwd rerunEnv = ''/proj''" "\<not> isMonorepo rerunEnv" "\<not> explicitExtensionsDetected rerunEnv"
  "statThrows rerunEnv p = None" "readdirResult rerunEnv p = Inr rerunFiles"
  by (simp_all add: variantsEnv_def starEnv_def unreadableTwinEnv_def aloneEnv_def rerunEnv_def
        sampleEnv_def)

lemma variantConfig_fields:
  "componentsDir forcedConfig = ''src/components/ui''" "outputFile forcedConfig = ''index.ts''"
  "\<not> dryRun forcedConfig" "forceExplicitExtensions forcedConfig" "extensionOverride forcedConfig = []"
  "sortAlphabetically forcedConfig" "headerComment forcedConfig = defaultHeaderComment"
  "singleLineThreshold forcedConfig = 3"
  "componentsDir overrideConfig = ''src/components/ui''" "outputFile overrideConfig = ''index.ts''"
  "\<not> dryRun overrideConfig" "\<not> forceExplicitExtensions overrideConfig"
  "extensionOverride overrideConfig = ''.jsx''"
  "sortAlphabetically overrideConfig" "headerComment overrideConfig = defaultHeaderComment"
  "singleLineThreshold overrideConfig = 3"
  "componentsDir exportsConfig = ''src/components/ui''" "outputFile exportsConfig = ''exports.ts''"
  "\<not> dryRun exportsConfig" "\<not> forceExplicitExtensions exportsConfig"
  "extensionOverride exportsConfig = []"
  "sortAlphabetically exportsConfig" "headerComment exportsConfig = defaultHeaderComment"
  "singleLineThreshold exportsConfig = 3"
  by (simp_all add: forcedConfig_def overrideConfig_def exportsConfig_def defaultConfig_def)

lemma star_text:
  "renderedText defaultConfig starEnv twinFiles =
     defaultHeaderComment @
     unlines [''export { Button, type ButtonProps } from '' @ [dq] @ ''./button'' @ [dq] @ '';'']"
  by (simp add: renderedText_def resolve_sample variantEnv_fields defaultConfig_fields
        twin_componentFiles star_loop Let_def componentNames_def mapKeys_def statementFor_def
        exportsOf_def mapGet_def statement_def moduleExtension_def useExplicitExtensions_def
        unlines_def)

lemma sample_sources:
  "sourceFile sampleEnv (join sampleDir ''form.tsx'') = Inr formTsx"
  "sourceFile sampleEnv (join sampleDir ''button.tsx'') = Inr buttonTsx"
  by (simp_all add: sampleEnv_fields sampleSources_def join_def sampleDir_def)

lemma sample_trees:
  "exportsTypeDeclaration ''FormState'' formTsx"
  "exportsTypeDeclaration ''ButtonProps'' buttonTsx"
  "exportsVariable ''Button'' buttonTsx"
  "exportsVariable ''formOptions'' formTsx"
  "clauseOf defaultConfig formTsx = [''Form'', ''FormField'', ''type FormState'', ''type formOptions'']"
  "clauseOf defaultConfig buttonTsx = [''Button'', ''type ButtonProps'']"
  "reclassified defaultConfig formTsx = 1"
  "shouldBeType ''FormState'' (typePatterns defaultConfig) = False"
  "shouldBeType ''ButtonProps'' (typePatterns defaultConfig) = True"
  "shouldBeType ''Button'' (typePatterns defaultConfig) = False"
  "shouldBeType ''formOptions'' (typePatterns defaultConfig) = True"
  "typeSpecifier ''FormState'' = ''type FormState''"
  "typeSpecifier ''formOptions'' = ''type formOptions''"
  by code_simp+

lemma sample_only_files:
  "\<forall>g \<in> set [''form.tsx'', ''card.tsx'', ''button.tsx'', ''broken.ts''].
     componentNameOf g = componentNameOf ''form.tsx'' \<longrightarrow> g = ''form.tsx''"
  "\<forall>g \<in> set [''form.tsx'', ''card.tsx'', ''button.tsx'', ''broken.ts''].
     componentNameOf g = componentNameOf ''button.tsx'' \<longrightarrow> g = ''button.tsx''"
  by (simp_all add: sample_names)

lemma variant_componentFiles:
  "componentFilesOf overrideConfig fs = componentFilesOf defaultConfig fs"
  "componentFilesOf forcedConfig fs = componentFilesOf defaultConfig fs"
  "componentFilesOf exportsConfig fs = componentFilesOf defaultConfig fs"
  by (simp_all add: componentFilesOf_def overrideConfig_def forcedConfig_def exportsConfig_def)

lemma rerun_componentFiles:
  "componentFilesOf defaultConfig rerunFiles = [''exports.ts'']"
  "componentFilesOf defaultConfig [''button.tsx''] = [''button.tsx'']"
  by (simp_all add: componentFilesOf_def rerunFiles_def defaultConfig_def defaultInclude_def
        defaultExclude_def endsWith_def test_def matches_def lit_def opt_def)

lemma override_loop:
  "processFiles overrideConfig sampleEnv sampleDir [''form.tsx'', ''card.tsx'', ''button.tsx'', ''broken.ts''] =
     \<lparr> componentExports =
         [ (''form'', [''Form'', ''FormField'', ''type FormState'', ''type formOptions'']),
           (''card'', [''Card'']),
           (''button'', [''Button'', ''type ButtonProps'']) ],
       fileExtensions =
         [(''form'', ''.tsx''), (''card'', ''.tsx''), (''button'', ''.tsx''), (''broken'', ''.ts'')],
       processedCount = 4, typesDetectedCount = 1,
       emitted =
         [ ReadFile ''/proj/src/components/ui/form.tsx'',
           ReadFile ''/proj/src/components/ui/card.tsx'',
           ReadFile ''/proj/src/components/ui/button.tsx'',
           ReadFile ''/proj/src/components/ui/broken.ts'',
           ConsoleWarn ''Warning: Could not process file broken.ts:''
             (permissionDenied ''/proj/src/components/ui/broken.ts'') ] \<rparr>"
  by code_simp

lemma rerun_loop:
  "processFiles exportsConfig rerunEnv sampleDir [''exports.ts''] =
     \<lparr> componentExports = [(''exports'', [''Button''])],
       fileExtensions = [(''exports'', ''.ts'')],
       processedCount = 1, typesDetectedCount = 0,
       emitted = [ReadFile ''/proj/src/components/ui/exports.ts''] \<rparr>"
  by code_simp

lemma forced_twin_loop:
  "processFiles forcedConfig unreadableTwinEnv sampleDir [''button.tsx'', ''button.ts''] =
     \<lparr> componentExports = [(''button'', [''Button'', ''type ButtonProps''])],
       fileExtensions = [(''button'', ''.ts'')],
       processedCount = 2, typesDetectedCount = 0,
       emitted =
         [ ReadFile ''/proj/src/components/ui/button.tsx'',
           ReadFile ''/proj/src/components/ui/button.ts'',
           ConsoleWarn ''Warning: Could not process file button.ts:''
             (permissionDenied ''/proj/src/components/ui/button.ts'') ] \<rparr>"
  by code_simp

lemma forced_alone_loop:
  "processFiles forcedConfig aloneEnv sampleDir [''button.tsx''] =
     \<lparr> componentExports = [(''button'', [''Button'', ''type ButtonProps''])],
       fileExtensions = [(''button'', ''.tsx'')],
       processedCount = 1, typesDetectedCount = 0,
       emitted = [ReadFile ''/proj/src/components/ui/button.tsx''] \<rparr>"
  by code_simp

lemma override_text: "renderedText overrideConfig sampleEnv sampleFiles = sampleText"
  by (simp add: renderedText_def resolve_sample sampleEnv_fields variantConfig_fields
        variant_componentFiles sample_componentFiles override_loop Let_def
        componentNames_def mapKeys_def sample_sorted_names statementFor_def
        exportsOf_def mapGet_def statement_def moduleExtension_def useExplicitExtensions_def
        sampleText_def unlines_def)

lemma rerun_text:
  "renderedText exportsConfig rerunEnv rerunFiles =
     defaultHeaderComment @ unlines [''export { Button } from '' @ [dq] @ ''./exports'' @ [dq] @ '';'']"
  by (simp add: renderedText_def resolve_sample variantEnv_fields variantConfig_fields
        variant_componentFiles rerun_componentFiles rerun_loop Let_def
        componentNames_def mapKeys_def statementFor_def
        exportsOf_def mapGet_def statement_def moduleExtension_def useExplicitExtensions_def
        unlines_def)

lemma forced_twin_text:
  "renderedText forcedConfig unreadableTwinEnv twinFiles =
     defaultHeaderComment @
     unlines [''export { Button, type ButtonProps } from '' @ [dq] @ ''./button.ts'' @ [dq] @ '';'']"
  by (simp add: renderedText_def resolve_sample variantEnv_fields variantConfig_fields
        variant_componentFiles twin_componentFiles forced_twin_loop Let_def
        componentNames_def mapKeys_def statementFor_def
        exportsOf_def mapGet_def statement_def moduleExtension_def useExplicitExtensions_def
        unlines_def)

lemma forced_alone_text:
  "renderedText forcedConfig aloneEnv [''button.tsx''] =
     defaultHeaderComment @
     unlines [''export { Button, type ButtonProps } from '' @ [dq] @ ''./button.tsx'' @ [dq] @ '';'']"
  by (simp add: renderedText_def resolve_sample variantEnv_fields variantConfig_fields
        variant_componentFiles rerun_componentFiles forced_alone_loop Let_def
        componentNames_def mapKeys_def statementFor_def
        exportsOf_def mapGet_def statement_def moduleExtension_def useExplicitExtensions_def
        unlines_def)

lemma thresholdTwo_loop:
  "processFiles thresholdTwoConfig sampleEnv sampleDir [''form.tsx'', ''card.tsx'', ''button.tsx'', ''broken.ts''] =
     \<lparr> componentExports =
         [ (''form'', [''Form'', ''FormField'', ''type FormState'', ''type formOptions'']),
           (''card'', [''Card'']),
           (''button'', [''Button'', ''type ButtonProps'']) ],
       fileExtensions =
         [(''form'', ''.tsx''), (''card'', ''.tsx''), (''button'', ''.tsx''), (''broken'', ''.ts'')],
       processedCount = 4, typesDetectedCount = 1,
       emitted =
         [ ReadFile ''/proj/src/components/ui/form.tsx'',
           ReadFile ''/proj/src/components/ui/card.tsx'',
           ReadFile ''/proj/src/components/ui/button.tsx'',
           ReadFile ''/proj/src/components/ui/broken.ts'',
           ConsoleWarn ''Warning: Could not process file broken.ts:''
             (permissionDenied ''/proj/src/components/ui/broken.ts'') ] \<rparr>"
  by code_simp

lemma thresholdTwo_fields:
  "singleLineThreshold thresholdTwoConfig = 2" "sortAlphabetically thresholdTwoConfig"
  "\<not> forceExplicitExtensions thresholdTwoConfig"
  "componentFilesOf thresholdTwoConfig fs = componentFilesOf defaultConfig fs"
  by (simp_all add: thresholdTwoConfig_def defaultConfig_def componentFilesOf_def)

lemma thresholdTwo_exportsOf:
  "exportsOf (processFiles thresholdTwoConfig sampleEnv sampleDir
      (componentFilesOf defaultConfig sampleFiles)) ''button'' = [''Button'', ''type ButtonProps'']"
  "componentNames thresholdTwoConfig (processFiles thresholdTwoConfig sampleEnv sampleDir
      (componentFilesOf defaultConfig sampleFiles)) = [''button'', ''card'', ''form'']"
  "moduleSpecifier thresholdTwoConfig (useExplicitExtensions thresholdTwoConfig sampleEnv)
     (processFiles thresholdTwoConfig sampleEnv sampleDir (componentFilesOf defaultConfig sampleFiles)) k
     = ''./'' @ k"
  by (simp_all add: sample_componentFiles thresholdTwo_loop exportsOf_def mapGet_def
        componentNames_def mapKeys_def thresholdTwo_fields sample_sorted_names moduleSpecifier_def
        moduleExtension_def useExplicitExtensions_def sampleEnv_fields)

section \<open>The claims\<close>

text \<open>
  C1. The override extension is consulted only inside the branch guarded by
  \<^verbatim>\<open>useExplicitExtensions\<close>. With \<^verbatim>\<open>--ext .jsx\<close>, without \<^verbatim>\<open>--force-extensions\<close>, in a
  project that is not detected as an ES module project, the sample directory is
  rendered with module specifiers \<^verbatim>\<open>./button\<close>, \<^verbatim>\<open>./card\<close>, \<^verbatim>\<open>./form\<close>: none ends with
  \<^verbatim>\<open>.jsx\<close>. (Lemma \<open>override_applies_when_explicit\<close>: inside that branch the override
  is applied, with a leading dot added when missing.)
\<close>

theorem C1_override_ignored_outside_explicit_mode:
  "extensionOverride overrideConfig = ''.jsx'' \<and>
   \<not> forceExplicitExtensions overrideConfig \<and> \<not> explicitExtensionsDetected sampleEnv \<and>
   writesOf (trace (generateIndex overrideConfig sampleEnv sampleWorld)) =
     [(''/proj/src/components/ui/index.ts'', sampleText)]"
proof -
  have dir: "resolveComponentsDir overrideConfig sampleEnv = sampleDir"
    by (simp add: resolve_sample sampleEnv_fields variantConfig_fields)
  have "writesOf (trace (generateIndex overrideConfig sampleEnv sampleWorld)) =
     [(''/proj/src/components/ui/index.ts'', renderedText overrideConfig sampleEnv sampleFiles)]"
    using writes_when_listed [of sampleEnv overrideConfig sampleFiles sampleWorld]
    by (simp add: dir sampleEnv_fields variantConfig_fields sampleWorld_fields sample_dir)
  then show ?thesis
    by (simp add: override_text sampleEnv_fields variantConfig_fields)
qed

text \<open>
  C2. The exclude patterns name \<^verbatim>\<open>index.ts\<close>, not the configured output file. With
  \<^verbatim>\<open>--output exports.ts\<close>, in a directory that holds only a declaration file and the
  \<^verbatim>\<open>exports.ts\<close> of an earlier run, \<^verbatim>\<open>exports.ts\<close> is scanned as a component and the
  generated text holds a statement that re-exports from \<^verbatim>\<open>./exports\<close>. (Lemmas
  \<open>nothing_included_header_only\<close> and \<open>excluded_directory_header_only\<close>: when the filter
  keeps no file, the text is the header; with the default exclude patterns that is so
  whenever every entry ends with \<^verbatim>\<open>.d.ts\<close>, \<^verbatim>\<open>.test.ts\<close>, \<^verbatim>\<open>.test.tsx\<close>, \<^verbatim>\<open>.stories.ts\<close>,
  \<^verbatim>\<open>.stories.tsx\<close> or \<^verbatim>\<open>index.ts\<close>.)
\<close>

theorem C2_configured_output_file_rescanned:
  "outputFile exportsConfig = ''exports.ts'' \<and>
   readdirResult rerunEnv sampleDir = Inr [''button.d.ts'', ''exports.ts''] \<and>
   componentFilesOf exportsConfig [''button.d.ts'', ''exports.ts''] = [''exports.ts''] \<and>
   writesOf (trace (generateIndex exportsConfig rerunEnv sampleWorld)) =
     [(''/proj/src/components/ui/exports.ts'',
       defaultHeaderComment @
       unlines [''export { Button } from '' @ [dq] @ ''./exports'' @ [dq] @ '';''])]"
proof -
  have dir: "resolveComponentsDir exportsConfig rerunEnv = sampleDir"
    by (simp add: resolve_sample variantEnv_fields variantConfig_fields)
  have "writesOf (trace (generateIndex exportsConfig rerunEnv sampleWorld)) =
     [(join sampleDir ''exports.ts'', renderedText exportsConfig rerunEnv rerunFiles)]"
    using writes_when_listed [of rerunEnv exportsConfig rerunFiles sampleWorld]
    by (simp add: dir variantEnv_fields variantConfig_fields sampleWorld_fields)
  then have "writesOf (trace (generateIndex exportsConfig rerunEnv sampleWorld)) =
     [(''/proj/src/components/ui/exports.ts'',
       defaultHeaderComment @
       unlines [''export { Button } from '' @ [dq] @ ''./exports'' @ [dq] @ '';''])]"
    by (simp add: rerun_text join_def sampleDir_def)
  then show ?thesis
    using rerun_componentFiles(1)
    by (simp add: variantEnv_fields variantConfig_fields variant_componentFiles rerunFiles_def)
qed

text \<open>
  C3. The extension of a file is recorded before the \<^verbatim>\<open>try\<close> that reads it. With
  \<^verbatim>\<open>--force-extensions\<close>, \<^verbatim>\<open>button.tsx\<close> followed by an unreadable \<^verbatim>\<open>button.ts\<close>: the
  warning names \<^verbatim>\<open>button.ts\<close>, and the statement for \<^verbatim>\<open>button\<close> carries the exports of
  \<^verbatim>\<open>button.tsx\<close> with the module specifier \<^verbatim>\<open>./button.ts\<close>, where the directory with
  \<^verbatim>\<open>button.tsx\<close> alone gives \<^verbatim>\<open>./button.tsx\<close>. (Lemmas \<open>failed_file_warned\<close>,
  \<open>processFiles_quiet\<close> and \<open>exports_ignore_failed_files\<close>: every failed file is warned
  about, every file is read, and the exports map is that of the files that were read
  and parsed.)
\<close>

theorem C3_failed_file_changes_module_specifier:
  "forceExplicitExtensions forcedConfig \<and>
   readdirResult unreadableTwinEnv sampleDir = Inr [''button.tsx'', ''button.ts''] \<and>
   sourceFile unreadableTwinEnv (join sampleDir ''button.ts'') =
     Inl (permissionDenied ''/proj/src/components/ui/button.ts'') \<and>
   ConsoleWarn ''Warning: Could not process file button.ts:''
       (permissionDenied ''/proj/src/components/ui/button.ts'')
     \<in> set (trace (generateIndex forcedConfig unreadableTwinEnv sampleWorld)) \<and>
   writesOf (trace (generateIndex forcedConfig unreadableTwinEnv sampleWorld)) =
     [(''/proj/src/components/ui/index.ts'',
       defaultHeaderComment @
       unlines [''export { Button, type ButtonProps } from '' @ [dq] @ ''./button.ts'' @ [dq] @ '';''])] \<and>
   readdirResult aloneEnv sampleDir = Inr [''button.tsx''] \<and>
   writesOf (trace (generateIndex forcedConfig aloneEnv sampleWorld)) =
     [(''/proj/src/components/ui/index.ts'',
       defaultHeaderComment @
       unlines [''export { Button, type ButtonProps } from '' @ [dq] @ ''./button.tsx'' @ [dq] @ '';''])]"
proof -
  have dir: "resolveComponentsDir forcedConfig unreadableTwinEnv = sampleDir"
    "resolveComponentsDir forcedConfig aloneEnv = sampleDir"
    by (simp_all add: resolve_sample variantEnv_fields variantConfig_fields)
  have twin: "writesOf (trace (generateIndex forcedConfig unreadableTwinEnv sampleWorld)) =
     [(''/proj/src/components/ui/index.ts'', renderedText forcedConfig unreadableTwinEnv twinFiles)]"
    using writes_when_listed [of unreadableTwinEnv forcedConfig twinFiles sampleWorld]
    by (simp add: dir variantEnv_fields variantConfig_fields sampleWorld_fields sample_dir)
  have alone: "writesOf (trace (generateIndex forcedConfig aloneEnv sampleWorld)) =
     [(''/proj/src/components/ui/index.ts'', renderedText forcedConfig aloneEnv [''button.tsx''])]"
    using writes_when_listed [of aloneEnv forcedConfig "[''button.tsx'']" sampleWorld]
    by (simp add: dir variantEnv_fields variantConfig_fields sampleWorld_fields sample_dir)
  have src: "sourceFile unreadableTwinEnv (join sampleDir ''button.ts'') =
     Inl (permissionDenied ''/proj/src/components/ui/button.ts'')"
    by (simp add: unreadableTwinEnv_def sampleEnv_def sampleSources_def join_def sampleDir_def)
  have "ConsoleWarn ''Warning: Could not process file button.ts:''
       (permissionDenied ''/proj/src/components/ui/button.ts'')
     \<in> set (trace (generateIndex forcedConfig unreadableTwinEnv sampleWorld))"
    by (cases "writeFileThrows unreadableTwinEnv (join sampleDir (outputFile forcedConfig))
          (renderedText forcedConfig unreadableTwinEnv twinFiles)")
       (simp_all add: run_written run_write_failed dir variantEnv_fields variantConfig_fields
          eventsBeforeOutput_def variant_componentFiles twin_componentFiles forced_twin_loop)
  then show ?thesis
    using twin [unfolded forced_twin_text] alone [unfolded forced_alone_text] src
    by (simp add: variantEnv_fields variantConfig_fields twinFiles_def)
qed

text \<open>
  C4 (amended). Under \<^verbatim>\<open>dryRun\<close> the run makes no write and leaves every file as it
  was; when the directory is listed, the rendered text is printed. Without \<^verbatim>\<open>dryRun\<close>,
  when the directory exists and is listed, the run makes exactly one write: of the
  rendered text, to the output file inside the components directory, after every
  component file has been read and with no read after it; when the write succeeds the
  file holds the rendered text whatever it held before. When the directory is missing,
  or \<^verbatim>\<open>stat\<close> or the listing fails, nothing is written, with or without \<^verbatim>\<open>dryRun\<close>.
\<close>

theorem C4_single_write:
  "let dir = resolveComponentsDir cfg e;
       out = join dir (outputFile cfg);
       content = renderedText cfg e files;
       w' = generateIndex cfg e w
   in indexContent cfg (useExplicitExtensions cfg e)
        (processFiles cfg e dir (componentFilesOf cfg files)) = Inr content \<and>
      (dryRun cfg \<longrightarrow> writesOf (trace w') = writesOf (trace w) \<and> disk w' = disk w) \<and>
      (dryRun cfg \<and> statThrows e dir = None \<and> readdirResult e dir = Inr files \<longrightarrow>
         ConsoleLog content \<in> set (trace w')) \<and>
      (statThrows e dir \<noteq> None \<or> isl (readdirResult e dir) \<longrightarrow>
         writesOf (trace w') = writesOf (trace w) \<and> disk w' = disk w) \<and>
      (\<not> dryRun cfg \<and> statThrows e dir = None \<and> readdirResult e dir = Inr files \<longrightarrow>
         (\<exists>post. trace w' =
            trace w @ eventsBeforeOutput cfg e dir files @ [WriteFile out content] @ post \<and>
            writesOf post = [] \<and> readsOf post = []) \<and>
         writesOf (eventsBeforeOutput cfg e dir files) = [] \<and>
         readsOf (eventsBeforeOutput cfg e dir files) = map (join dir) (componentFilesOf cfg files) \<and>
         writesOf (trace w') = writesOf (trace w) @ [(out, content)] \<and>
         disk w' = (if writeFileThrows e out content = None then (disk w)(out \<mapsto> content) else disk w))"
proof -
  define dir where "dir = resolveComponentsDir cfg e"
  define out where "out = join dir (outputFile cfg)"
  define content where "content = renderedText cfg e files"
  define w' where "w' = generateIndex cfg e w"
  have failed: "writesOf (trace w') = writesOf (trace w) \<and> disk w' = disk w"
    if "statThrows e dir \<noteq> None \<or> isl (readdirResult e dir)"
  proof (cases "statThrows e dir")
    case (Some err)
    then show ?thesis
      unfolding w'_def dir_def
      by (cases "code err = Some ''ENOENT''")
         (simp_all add: run_missing run_stat_failed writesOf_append notices_quiet closing_quiet)
  next
    case None
    with that obtain err where "readdirResult e dir = Inl err"
      by (cases "readdirResult e dir") auto
    with None show ?thesis
      unfolding w'_def dir_def
      by (simp add: run_readdir_failed writesOf_append notices_quiet closing_quiet)
  qed
  have shown: "writesOf (trace w') = writesOf (trace w) \<and> disk w' = disk w \<and>
      ConsoleLog content \<in> set (trace w')"
    if "dryRun cfg" "statThrows e dir = None" "readdirResult e dir = Inr files"
    using that unfolding w'_def dir_def content_def
    by (simp add: run_dry writesOf_append eventsBeforeOutput_quiet closing_quiet)
  have dry: "writesOf (trace w') = writesOf (trace w) \<and> disk w' = disk w" if "dryRun cfg"
  proof (cases "statThrows e dir \<noteq> None \<or> isl (readdirResult e dir)")
    case True
    then show ?thesis by (rule failed)
  next
    case False
    then obtain files' where ok: "statThrows e dir = None" "readdirResult e dir = Inr files'"
      by (cases "readdirResult e dir") auto
    with that show ?thesis
      unfolding w'_def dir_def
      by (simp add: run_dry writesOf_append eventsBeforeOutput_quiet closing_quiet)
  qed
  have written: "(\<exists>post. trace w' =
            trace w @ eventsBeforeOutput cfg e dir files @ [WriteFile out content] @ post \<and>
            writesOf post = [] \<and> readsOf post = []) \<and>
         writesOf (trace w') = writesOf (trace w) @ [(out, content)] \<and>
         disk w' = (if writeFileThrows e out content = None then (disk w)(out \<mapsto> content) else disk w)"
    if ok: "\<not> dryRun cfg" "statThrows e dir = None" "readdirResult e dir = Inr files"
  proof (cases "writeFileThrows e out content")
    case None
    with ok show ?thesis
      unfolding w'_def dir_def content_def out_def
      by (simp add: run_written writesOf_append eventsBeforeOutput_quiet closing_quiet)
  next
    case (Some err)
    have quiet: "writesOf (errorReport err @
          [ if verbose cfg then ConsoleError ([nl] @ ''Detailed error information:'') err
            else Log ''Run with --verbose for more details'' Info ] @ closing) = []"
      "readsOf (errorReport err @
          [ if verbose cfg then ConsoleError ([nl] @ ''Detailed error information:'') err
            else Log ''Run with --verbose for more details'' Info ] @ closing) = []"
      by (simp_all add: writesOf_append readsOf_append notices_quiet closing_quiet)
    from Some ok show ?thesis
      unfolding w'_def dir_def content_def out_def
      using quiet
      by (simp add: run_write_failed writesOf_append eventsBeforeOutput_quiet)
  qed
  have rendered: "indexContent cfg (useExplicitExtensions cfg e)
        (processFiles cfg e dir (componentFilesOf cfg files)) = Inr content"
    unfolding dir_def content_def by (rule indexContent_rendered)
  show ?thesis
    unfolding Let_def dir_def [symmetric] out_def [symmetric] content_def [symmetric] w'_def [symmetric]
    using rendered failed shown dry written eventsBeforeOutput_quiet [of cfg e dir files]
    by blast
qed

text \<open>
  In the sample directory the one write replaces the stale \<^verbatim>\<open>index.ts\<close>; under
  \<^verbatim>\<open>dryRun\<close> the stale file stays.
\<close>

theorem C4_single_write_witness:
  "\<not> dryRun defaultConfig \<and>
   statThrows sampleEnv sampleDir = None \<and> readdirResult sampleEnv sampleDir = Inr sampleFiles \<and>
   writesOf (trace (generateIndex defaultConfig sampleEnv sampleWorld)) =
     [(''/proj/src/components/ui/index.ts'', sampleText)] \<and>
   disk (generateIndex defaultConfig sampleEnv sampleWorld) ''/proj/src/components/ui/index.ts'' =
     Some sampleText \<and>
   dryRun (defaultConfig\<lparr>dryRun := True\<rparr>) \<and>
   writesOf (trace (generateIndex (defaultConfig\<lparr>dryRun := True\<rparr>) sampleEnv sampleWorld)) = [] \<and>
   disk (generateIndex (defaultConfig\<lparr>dryRun := True\<rparr>) sampleEnv sampleWorld)
     ''/proj/src/components/ui/index.ts'' = Some ''stale''"
  using C4_single_write [of defaultConfig sampleEnv sampleFiles sampleWorld]
    C4_single_write [of "defaultConfig\<lparr>dryRun := True\<rparr>" sampleEnv sampleFiles sampleWorld]
  by (simp add: Let_def sample_dir sample_text defaultConfig_fields sampleEnv_fields
        sampleWorld_fields)

text \<open>
  The claim as stated fails when the directory does not exist: without \<^verbatim>\<open>dryRun\<close> the
  run returns before it writes anything.
\<close>

theorem C4_no_write_when_directory_missing:
  "\<not> dryRun defaultConfig \<and>
   statThrows missingEnv (resolveComponentsDir defaultConfig missingEnv) =
     Some (noSuchFile ''/proj/src/components/ui'') \<and>
   writesOf (trace (generateIndex defaultConfig missingEnv sampleWorld)) = [] \<and>
   disk (generateIndex defaultConfig missingEnv sampleWorld) ''/proj/src/components/ui/index.ts'' =
     Some ''stale''"
  by (simp add: run_missing [of missingEnv defaultConfig "noSuchFile ''/proj/src/components/ui''"]
        failureEnv_fields sample_dir sampleDir_def noSuchFile_def defaultConfig_fields
        sampleWorld_fields writesOf_append notices_quiet closing_quiet)

text \<open>
  C5. When \<^verbatim>\<open>stat\<close> of the directory throws \<^verbatim>\<open>ENOENT\<close>, the run reports that the
  directory was not found and returns with the exit code untouched, having written
  nothing. When \<^verbatim>\<open>stat\<close> throws anything else, when the listing throws, or when the
  write of the output throws, whatever the error (with or without a code), the run
  reports a message chosen by the error's code and the exit code becomes 1. A run
  that completes leaves the exit code untouched.
\<close>

theorem C5_exit_codes:
  "let dir = resolveComponentsDir cfg e;
       out = join dir (outputFile cfg);
       w' = generateIndex cfg e w
   in (statThrows e dir = Some err \<and> code err = Some ''ENOENT'' \<longrightarrow>
         exitCode w' = exitCode w \<and> writesOf (trace w') = writesOf (trace w) \<and> disk w' = disk w \<and>
         Log (''Directory not found: '' @ dir) Error \<in> set (trace w')) \<and>
      (statThrows e dir = Some err \<and> code err \<noteq> Some ''ENOENT'' \<longrightarrow>
         exitCode w' = 1 \<and> Log (userMessage err) Error \<in> set (trace w')) \<and>
      (statThrows e dir = None \<and> readdirResult e dir = Inl err \<longrightarrow>
         exitCode w' = 1 \<and> Log (userMessage err) Error \<in> set (trace w')) \<and>
      (statThrows e dir = None \<and> readdirResult e dir = Inr files \<and> \<not> dryRun cfg \<and>
       writeFileThrows e out (renderedText cfg e files) = Some err \<longrightarrow>
         exitCode w' = 1 \<and> Log (userMessage err) Error \<in> set (trace w')) \<and>
      (statThrows e dir = None \<and> readdirResult e dir = Inr files \<and>
       (dryRun cfg \<or> writeFileThrows e out (renderedText cfg e files) = None) \<longrightarrow>
         exitCode w' = exitCode w)"
proof -
  obtain rest where report: "errorReport err = Log (userMessage err) Error # rest"
    using errorReport_first by blast
  show ?thesis
    unfolding Let_def
    by (cases "dryRun cfg")
       (auto simp: run_missing run_stat_failed run_readdir_failed run_write_failed run_dry
          run_written writesOf_append notices_quiet closing_quiet report)
qed

text \<open>
  A missing directory leaves exit code 0; a directory that cannot be listed and an
  output file that cannot be written give exit code 1 and the permission message.
\<close>

theorem C5_exit_codes_witness:
  "statThrows missingEnv sampleDir = Some (noSuchFile sampleDir) \<and>
   code (noSuchFile sampleDir) = Some ''ENOENT'' \<and>
   exitCode (generateIndex defaultConfig missingEnv sampleWorld) = 0 \<and>
   writesOf (trace (generateIndex defaultConfig missingEnv sampleWorld)) = [] \<and>
   statThrows unlistableEnv sampleDir = None \<and>
   readdirResult unlistableEnv sampleDir = Inl (permissionDenied sampleDir) \<and>
   exitCode (generateIndex defaultConfig unlistableEnv sampleWorld) = 1 \<and>
   Log ''Permission denied: Cannot access /proj/src/components/ui'' Error
     \<in> set (trace (generateIndex defaultConfig unlistableEnv sampleWorld)) \<and>
   statThrows readOnlyEnv sampleDir = None \<and> readdirResult readOnlyEnv sampleDir = Inr sampleFiles \<and>
   \<not> dryRun defaultConfig \<and>
   writeFileThrows readOnlyEnv (join sampleDir ''index.ts'') (renderedText defaultConfig readOnlyEnv sampleFiles)
     = Some (permissionDenied ''/proj/src/components/ui/index.ts'') \<and>
   exitCode (generateIndex defaultConfig readOnlyEnv sampleWorld) = 1 \<and>
   Log ''Permission denied: Cannot access /proj/src/components/ui/index.ts'' Error
     \<in> set (trace (generateIndex defaultConfig readOnlyEnv sampleWorld))"
  using C5_exit_codes [where cfg = defaultConfig and e = missingEnv and err = "noSuchFile sampleDir"
      and files = sampleFiles and w = sampleWorld]
    C5_exit_codes [where cfg = defaultConfig and e = unlistableEnv
      and err = "permissionDenied sampleDir" and files = sampleFiles and w = sampleWorld]
    C5_exit_codes [where cfg = defaultConfig and e = readOnlyEnv
      and err = "permissionDenied ''/proj/src/components/ui/index.ts''"
      and files = sampleFiles and w = sampleWorld]
  by (simp add: Let_def sample_dir failureEnv_fields defaultConfig_fields sampleWorld_fields
        userMessage_def pathText_def permissionDenied_def noSuchFile_def sampleDir_def join_def)

text \<open>
  C6. For every component file that is read and parsed and whose tree holds
  \<^verbatim>\<open>export interface Foo\<close> or \<^verbatim>\<open>export type Foo = ...\<close>, the combined export list built
  for the file holds the specifier \<^verbatim>\<open>type Foo\<close>, whatever the configured type patterns,
  and the file's turn of the loop stores that list under the file's base name. When no
  other component file has the same base name, this list is the one kept under the
  base name at the end and rendered in the statement of that base name in the generated
  text.
\<close>

theorem C6_declared_types_marked:
  "let dir = resolveComponentsDir cfg e;
       componentFiles = componentFilesOf cfg files;
       ls = processFiles cfg e dir componentFiles;
       u = useExplicitExtensions cfg e
   in f \<in> set componentFiles \<and> sourceFile e (join dir f) = Inr tree \<and>
      exportsTypeDeclaration foo tree \<longrightarrow>
        typeSpecifier foo \<in> set (clauseOf cfg tree) \<and>
        (\<forall>n ls0. mapGet (componentExports (processFile cfg e dir n f ls0)) (componentNameOf f) =
                   Some (clauseOf cfg tree)) \<and>
        ((\<forall>g \<in> set componentFiles. componentNameOf g = componentNameOf f \<longrightarrow> g = f) \<longrightarrow>
           exportsOf ls (componentNameOf f) = clauseOf cfg tree \<and>
           (\<exists>before after. indexContent cfg u ls =
              Inr (before @ statementFor cfg u ls (componentNameOf f) @ after)))"
proof -
  define dir where "dir = resolveComponentsDir cfg e"
  define componentFiles where "componentFiles = componentFilesOf cfg files"
  have "typeSpecifier foo \<in> set (clauseOf cfg tree) \<and>
        (\<forall>n ls0. mapGet (componentExports (processFile cfg e dir n f ls0)) (componentNameOf f) =
                   Some (clauseOf cfg tree)) \<and>
        ((\<forall>g \<in> set componentFiles. componentNameOf g = componentNameOf f \<longrightarrow> g = f) \<longrightarrow>
           exportsOf (processFiles cfg e dir componentFiles) (componentNameOf f) = clauseOf cfg tree \<and>
           (\<exists>before after. indexContent cfg (useExplicitExtensions cfg e)
                (processFiles cfg e dir componentFiles) =
              Inr (before @ statementFor cfg (useExplicitExtensions cfg e)
                (processFiles cfg e dir componentFiles) (componentNameOf f) @ after)))"
    if included: "f \<in> set componentFiles" and parsed: "sourceFile e (join dir f) = Inr tree"
      and declared: "exportsTypeDeclaration foo tree"
  proof -
    have marked: "typeSpecifier foo \<in> set (clauseOf cfg tree)"
      using declared by (simp add: exportsTypeDeclaration_extracted clauseOf_types)
    then have given: "contribution cfg e dir f = Some (clauseOf cfg tree)"
      using parsed by (rule contribution_parsed [rotated])
    show ?thesis
      using marked processFile_stores_clause(1) [OF parsed marked]
        only_file_of_base_rendered [OF included given]
      by blast
  qed
  then show ?thesis
    unfolding Let_def dir_def [symmetric] componentFiles_def [symmetric] by blast
qed

text \<open>
  In the sample directory: \<^verbatim>\<open>FormState\<close>, which no default pattern matches, and
  \<^verbatim>\<open>ButtonProps\<close>, which one matches, both appear with the \<^verbatim>\<open>type\<close> modifier.
\<close>

theorem C6_declared_types_marked_witness:
  "''form.tsx'' \<in> set (componentFilesOf defaultConfig sampleFiles) \<and>
   sourceFile sampleEnv (join sampleDir ''form.tsx'') = Inr formTsx \<and>
   exportsTypeDeclaration ''FormState'' formTsx \<and>
   \<not> shouldBeType ''FormState'' (typePatterns defaultConfig) \<and>
   ''type FormState'' \<in> set (clauseOf defaultConfig formTsx) \<and>
   exportsOf (processFiles defaultConfig sampleEnv sampleDir (componentFilesOf defaultConfig sampleFiles))
     (componentNameOf ''form.tsx'') =
     [''Form'', ''FormField'', ''type FormState'', ''type formOptions''] \<and>
   ''button.tsx'' \<in> set (componentFilesOf defaultConfig sampleFiles) \<and>
   sourceFile sampleEnv (join sampleDir ''button.tsx'') = Inr buttonTsx \<and>
   exportsTypeDeclaration ''ButtonProps'' buttonTsx \<and>
   shouldBeType ''ButtonProps'' (typePatterns defaultConfig) \<and>
   typeSpecifier ''ButtonProps'' \<in> set (clauseOf defaultConfig buttonTsx)"
proof -
  note form = C6_declared_types_marked [where cfg = defaultConfig and e = sampleEnv
      and files = sampleFiles and f = "''form.tsx''" and tree = formTsx and foo = "''FormState''",
      unfolded Let_def sample_dir sample_componentFiles]
  note button = C6_declared_types_marked [where cfg = defaultConfig and e = sampleEnv
      and files = sampleFiles and f = "''button.tsx''" and tree = buttonTsx
      and foo = "''ButtonProps''", unfolded Let_def sample_dir sample_componentFiles]
  have "typeSpecifier ''FormState'' \<in> set (clauseOf defaultConfig formTsx)"
    "exportsOf (processFiles defaultConfig sampleEnv sampleDir
        [''form.tsx'', ''card.tsx'', ''button.tsx'', ''broken.ts'']) (componentNameOf ''form.tsx'') =
      clauseOf defaultConfig formTsx"
    using form sample_sources(1) sample_trees(1) sample_only_files(1) by simp_all
  moreover have "typeSpecifier ''ButtonProps'' \<in> set (clauseOf defaultConfig buttonTsx)"
    using button sample_sources(2) sample_trees(2) by simp
  ultimately show ?thesis
    by (simp add: sample_componentFiles sample_sources sample_trees)
qed

text \<open>
  C7. For every component file that is read and parsed and whose tree holds
  \<^verbatim>\<open>export const Foo = ...\<close>: when no configured type pattern matches \<^verbatim>\<open>Foo\<close>, the
  combined export list built for the file holds the plain specifier \<^verbatim>\<open>Foo\<close>; when a
  pattern matches, it holds \<^verbatim>\<open>type Foo\<close>, and \<^verbatim>\<open>Foo\<close> is among the moved names, each
  of which adds one to the count of detected types in the file's turn of the loop. The
  turn stores the list under the file's base name. When no other component file has the
  same base name, the list is the one rendered in the statement of that base name.
\<close>

theorem C7_exported_variables:
  "let dir = resolveComponentsDir cfg e;
       componentFiles = componentFilesOf cfg files;
       ls = processFiles cfg e dir componentFiles;
       u = useExplicitExtensions cfg e;
       moved = filter (\<lambda>name. shouldBeType name (typePatterns cfg)) (fst (extractExports tree))
   in f \<in> set componentFiles \<and> sourceFile e (join dir f) = Inr tree \<and>
      exportsVariable foo tree \<longrightarrow>
        (\<not> shouldBeType foo (typePatterns cfg) \<longrightarrow> foo \<in> set (clauseOf cfg tree)) \<and>
        (shouldBeType foo (typePatterns cfg) \<longrightarrow>
           typeSpecifier foo \<in> set (clauseOf cfg tree) \<and> foo \<in> set moved) \<and>
        (\<forall>n ls0. mapGet (componentExports (processFile cfg e dir n f ls0)) (componentNameOf f) =
                   Some (clauseOf cfg tree) \<and>
                 typesDetectedCount (processFile cfg e dir n f ls0) =
                   typesDetectedCount ls0 + length moved) \<and>
        ((\<forall>g \<in> set componentFiles. componentNameOf g = componentNameOf f \<longrightarrow> g = f) \<longrightarrow>
           exportsOf ls (componentNameOf f) = clauseOf cfg tree \<and>
           (\<exists>before after. indexContent cfg u ls =
              Inr (before @ statementFor cfg u ls (componentNameOf f) @ after)))"
proof -
  define dir where "dir = resolveComponentsDir cfg e"
  define componentFiles where "componentFiles = componentFilesOf cfg files"
  define moved where
    "moved = filter (\<lambda>name. shouldBeType name (typePatterns cfg)) (fst (extractExports tree))"
  have "(\<not> shouldBeType foo (typePatterns cfg) \<longrightarrow> foo \<in> set (clauseOf cfg tree)) \<and>
        (shouldBeType foo (typePatterns cfg) \<longrightarrow>
           typeSpecifier foo \<in> set (clauseOf cfg tree) \<and> foo \<in> set moved) \<and>
        (\<forall>n ls0. mapGet (componentExports (processFile cfg e dir n f ls0)) (componentNameOf f) =
                   Some (clauseOf cfg tree) \<and>
                 typesDetectedCount (processFile cfg e dir n f ls0) =
                   typesDetectedCount ls0 + length moved) \<and>
        ((\<forall>g \<in> set componentFiles. componentNameOf g = componentNameOf f \<longrightarrow> g = f) \<longrightarrow>
           exportsOf (processFiles cfg e dir componentFiles) (componentNameOf f) = clauseOf cfg tree \<and>
           (\<exists>before after. indexContent cfg (useExplicitExtensions cfg e)
                (processFiles cfg e dir componentFiles) =
              Inr (before @ statementFor cfg (useExplicitExtensions cfg e)
                (processFiles cfg e dir componentFiles) (componentNameOf f) @ after)))"
    if included: "f \<in> set componentFiles" and parsed: "sourceFile e (join dir f) = Inr tree"
      and declared: "exportsVariable foo tree"
  proof -
    have extracted: "foo \<in> set (fst (extractExports tree))"
      using declared by (rule exportsVariable_extracted)
    then have listed: "(if shouldBeType foo (typePatterns cfg) then typeSpecifier foo else foo)
        \<in> set (clauseOf cfg tree)"
      by (rule clauseOf_values)
    then have given: "contribution cfg e dir f = Some (clauseOf cfg tree)"
      using parsed by (rule contribution_parsed [rotated])
    have turn: "mapGet (componentExports (processFile cfg e dir n f ls0)) (componentNameOf f) =
          Some (clauseOf cfg tree) \<and>
        typesDetectedCount (processFile cfg e dir n f ls0) = typesDetectedCount ls0 + length moved"
      for n ls0
      using processFile_stores_clause [OF parsed listed, of n ls0]
      by (simp add: reclassified_def moved_def)
    have "foo \<in> set moved" if "shouldBeType foo (typePatterns cfg)"
      using that extracted by (simp add: moved_def)
    then show ?thesis
      using listed turn only_file_of_base_rendered [OF included given]
      by (auto split: if_splits)
  qed
  then show ?thesis
    unfolding Let_def dir_def [symmetric] componentFiles_def [symmetric] moved_def [symmetric]
    by blast
qed

text \<open>
  In the sample directory: \<^verbatim>\<open>Button\<close> stays a plain specifier; \<^verbatim>\<open>formOptions\<close> matches
  \<^verbatim>\<open>/Options$/i\<close>, becomes \<^verbatim>\<open>type formOptions\<close> and is the one detected type of the run.
\<close>

theorem C7_exported_variables_witness:
  "''button.tsx'' \<in> set (componentFilesOf defaultConfig sampleFiles) \<and>
   sourceFile sampleEnv (join sampleDir ''button.tsx'') = Inr buttonTsx \<and>
   exportsVariable ''Button'' buttonTsx \<and>
   \<not> shouldBeType ''Button'' (typePatterns defaultConfig) \<and>
   ''Button'' \<in> set (clauseOf defaultConfig buttonTsx) \<and>
   exportsOf (processFiles defaultConfig sampleEnv sampleDir (componentFilesOf defaultConfig sampleFiles))
     (componentNameOf ''button.tsx'') = [''Button'', ''type ButtonProps''] \<and>
   ''form.tsx'' \<in> set (componentFilesOf defaultConfig sampleFiles) \<and>
   sourceFile sampleEnv (join sampleDir ''form.tsx'') = Inr formTsx \<and>
   exportsVariable ''formOptions'' formTsx \<and>
   shouldBeType ''formOptions'' (typePatterns defaultConfig) \<and>
   ''type formOptions'' \<in> set (clauseOf defaultConfig formTsx) \<and>
   reclassified defaultConfig formTsx = 1 \<and>
   typesDetectedCount
     (processFiles defaultConfig sampleEnv sampleDir (componentFilesOf defaultConfig sampleFiles)) = 1"
proof -
  note button = C7_exported_variables [where cfg = defaultConfig and e = sampleEnv
      and files = sampleFiles and f = "''button.tsx''" and tree = buttonTsx and foo = "''Button''",
      unfolded Let_def sample_dir sample_componentFiles]
  note form = C7_exported_variables [where cfg = defaultConfig and e = sampleEnv
      and files = sampleFiles and f = "''form.tsx''" and tree = formTsx and foo = "''formOptions''",
      unfolded Let_def sample_dir sample_componentFiles]
  have "''Button'' \<in> set (clauseOf defaultConfig buttonTsx)"
    "exportsOf (processFiles defaultConfig sampleEnv sampleDir
        [''form.tsx'', ''card.tsx'', ''button.tsx'', ''broken.ts'']) (componentNameOf ''button.tsx'') =
      clauseOf defaultConfig buttonTsx"
    using button sample_sources(2) sample_trees(3,10) sample_only_files(2) by simp_all
  moreover have "typeSpecifier ''formOptions'' \<in> set (clauseOf defaultConfig formTsx)"
    using form sample_sources(1) sample_trees(4,11) by simp
  ultimately show ?thesis
    by (simp add: sample_componentFiles sample_sources sample_trees sample_loop)
qed

text \<open>
  C8. Every statement of the generated text belongs to a key of the exports map, whose
  list is the combined export list (value names, then type names) of a component file
  of that base name. When the list has at most \<^verbatim>\<open>singleLineThreshold\<close> entries the
  statement is the single line \<^verbatim>\<open>export { N1, N2 } from "./module";\<close>; when it has
  \<^verbatim>\<open>singleLineThreshold + 1\<close> entries or more it is the multi-line statement with one
  name per line. A list of exactly \<^verbatim>\<open>singleLineThreshold\<close> entries is on one line.
\<close>

theorem C8_statement_layout:
  "let ls = processFiles cfg e dir (componentFilesOf cfg files);
       u = useExplicitExtensions cfg e
   in indexContent cfg u ls =
        Inr (headerComment cfg @ concat (map (statementFor cfg u ls) (componentNames cfg ls))) \<and>
      (\<forall>k \<in> set (componentNames cfg ls).
         (\<exists>f \<in> set (componentFilesOf cfg files).
            componentNameOf f = k \<and> contribution cfg e dir f = Some (exportsOf ls k)) \<and>
         (int (length (exportsOf ls k)) \<le> singleLineThreshold cfg \<longrightarrow>
            statementFor cfg u ls k = singleLine (exportsOf ls k) (moduleSpecifier cfg u ls k)) \<and>
         (singleLineThreshold cfg + 1 \<le> int (length (exportsOf ls k)) \<longrightarrow>
            statementFor cfg u ls k = multiLine (exportsOf ls k) (moduleSpecifier cfg u ls k)))"
proof -
  define ls where "ls = processFiles cfg e dir (componentFilesOf cfg files)"
  define u where "u = useExplicitExtensions cfg e"
  have layout: "\<exists>f \<in> set (componentFilesOf cfg files).
            componentNameOf f = k \<and> contribution cfg e dir f = Some (exportsOf ls k)"
     "int (length (exportsOf ls k)) \<le> singleLineThreshold cfg \<longrightarrow>
            statementFor cfg u ls k = singleLine (exportsOf ls k) (moduleSpecifier cfg u ls k)"
     "singleLineThreshold cfg + 1 \<le> int (length (exportsOf ls k)) \<longrightarrow>
            statementFor cfg u ls k = multiLine (exportsOf ls k) (moduleSpecifier cfg u ls k)"
    if "k \<in> set (componentNames cfg ls)" for k
  proof -
    from that have key: "k \<in> set (mapKeys (componentExports ls))"
      by (simp add: componentNames_set)
    then show inFile: "\<exists>f \<in> set (componentFilesOf cfg files).
            componentNameOf f = k \<and> contribution cfg e dir f = Some (exportsOf ls k)"
      unfolding ls_def by (rule stored_from_file)
    then have "exportsOf ls k \<noteq> []"
      by (auto dest: contribution_nonempty)
    then show "int (length (exportsOf ls k)) \<le> singleLineThreshold cfg \<longrightarrow>
            statementFor cfg u ls k = singleLine (exportsOf ls k) (moduleSpecifier cfg u ls k)"
      "singleLineThreshold cfg + 1 \<le> int (length (exportsOf ls k)) \<longrightarrow>
            statementFor cfg u ls k = multiLine (exportsOf ls k) (moduleSpecifier cfg u ls k)"
      by (simp_all add: statementFor_def moduleSpecifier_def statement_single statement_multi)
  qed
  show ?thesis
    unfolding Let_def ls_def [symmetric] u_def [symmetric]
    using layout by (simp add: indexContent_eq)
qed

text \<open>
  In the sample directory with the default threshold 3: \<^verbatim>\<open>button.tsx\<close> has two exports
  and is rendered on one line, \<^verbatim>\<open>form.tsx\<close> has four and is rendered on several; with
  the threshold 2, \<^verbatim>\<open>button.tsx\<close> has exactly as many exports as the threshold and is
  rendered on one line.
\<close>

theorem C8_statement_layout_witness:
  "''button'' \<in> set (componentNames defaultConfig
       (processFiles defaultConfig sampleEnv sampleDir (componentFilesOf defaultConfig sampleFiles))) \<and>
   int (length [''Button'', ''type ButtonProps'']) \<le> singleLineThreshold defaultConfig \<and>
   statementFor defaultConfig (useExplicitExtensions defaultConfig sampleEnv)
       (processFiles defaultConfig sampleEnv sampleDir (componentFilesOf defaultConfig sampleFiles)) ''button'' =
     singleLine [''Button'', ''type ButtonProps''] ''./button'' \<and>
   ''form'' \<in> set (componentNames defaultConfig
       (processFiles defaultConfig sampleEnv sampleDir (componentFilesOf defaultConfig sampleFiles))) \<and>
   singleLineThreshold defaultConfig + 1 =
     int (length [''Form'', ''FormField'', ''type FormState'', ''type formOptions'']) \<and>
   statementFor defaultConfig (useExplicitExtensions defaultConfig sampleEnv)
       (processFiles defaultConfig sampleEnv sampleDir (componentFilesOf defaultConfig sampleFiles)) ''form'' =
     multiLine [''Form'', ''FormField'', ''type FormState'', ''type formOptions''] ''./form'' \<and>
   ''button'' \<in> set (componentNames thresholdTwoConfig
       (processFiles thresholdTwoConfig sampleEnv sampleDir (componentFilesOf thresholdTwoConfig sampleFiles))) \<and>
   singleLineThreshold thresholdTwoConfig = int (length [''Button'', ''type ButtonProps'']) \<and>
   statementFor thresholdTwoConfig (useExplicitExtensions thresholdTwoConfig sampleEnv)
       (processFiles thresholdTwoConfig sampleEnv sampleDir (componentFilesOf thresholdTwoConfig sampleFiles))
       ''button'' =
     singleLine [''Button'', ''type ButtonProps''] ''./button''"
  using C8_statement_layout [of defaultConfig sampleEnv sampleDir sampleFiles]
    C8_statement_layout [of thresholdTwoConfig sampleEnv sampleDir sampleFiles]
  by (simp add: Let_def sample_exportsOf defaultConfig_fields thresholdTwo_exportsOf
        thresholdTwo_fields)

text \<open>
  C9. The generated text is the header followed by one statement per key of the exports
  map, in the order of \<open>componentNames\<close>. With \<^verbatim>\<open>sortAlphabetically\<close> these base names
  are in strictly increasing lexicographic order. Without it they stand in the order in
  which the directory listing enumerated the files that contributed exports, each base
  name at the place of its first such file; when no two contributing files share a
  base name, that is the list of their base names as enumerated.
\<close>

theorem C9_statement_order:
  "let dir = resolveComponentsDir cfg e;
       componentFiles = componentFilesOf cfg files;
       ls = processFiles cfg e dir componentFiles;
       names = componentNames cfg ls;
       contributing = map componentNameOf (filter (contributes cfg e dir) componentFiles)
   in indexContent cfg (useExplicitExtensions cfg e) ls =
        Inr (headerComment cfg @
             concat (map (statementFor cfg (useExplicitExtensions cfg e) ls) names)) \<and>
      (sortAlphabetically cfg \<longrightarrow> sorted_wrt (<) names \<and> set names = set contributing) \<and>
      (\<not> sortAlphabetically cfg \<longrightarrow> names = firstOccurrences contributing) \<and>
      (\<not> sortAlphabetically cfg \<and> distinct contributing \<longrightarrow> names = contributing)"
proof -
  define dir where "dir = resolveComponentsDir cfg e"
  define componentFiles where "componentFiles = componentFilesOf cfg files"
  define ls where "ls = processFiles cfg e dir componentFiles"
  define contributing where
    "contributing = map componentNameOf (filter (contributes cfg e dir) componentFiles)"
  have keys: "mapKeys (componentExports ls) = firstOccurrences contributing"
    unfolding ls_def contributing_def by (rule processFiles_names)
  have sorted: "sorted_wrt (<) (componentNames cfg ls) \<and> set (componentNames cfg ls) = set contributing"
    if "sortAlphabetically cfg"
    using that
    by (simp add: componentNames_def keys strict_sorted_iff firstOccurrences_distinct
          firstOccurrences_set)
  have unsorted: "componentNames cfg ls = firstOccurrences contributing"
    if "\<not> sortAlphabetically cfg"
    using that by (simp add: componentNames_def keys)
  show ?thesis
    unfolding Let_def dir_def [symmetric] componentFiles_def [symmetric] ls_def [symmetric]
      contributing_def [symmetric]
    using sorted unsorted by (simp add: indexContent_eq firstOccurrences_id)
qed

text \<open>
  The sample directory lists \<^verbatim>\<open>form.tsx\<close>, \<^verbatim>\<open>card.tsx\<close>, \<^verbatim>\<open>button.tsx\<close> in that order:
  sorted, the statements are for button, card, form; unsorted, for form, card, button.
\<close>

theorem C9_statement_order_witness:
  "sortAlphabetically defaultConfig \<and>
   componentNames defaultConfig
     (processFiles defaultConfig sampleEnv sampleDir (componentFilesOf defaultConfig sampleFiles)) =
     [''button'', ''card'', ''form''] \<and>
   sorted_wrt (<) [''button'', ''card'', ''form''] \<and>
   \<not> sortAlphabetically unsortedConfig \<and>
   componentFilesOf unsortedConfig sampleFiles = [''form.tsx'', ''card.tsx'', ''button.tsx'', ''broken.ts''] \<and>
   componentNames unsortedConfig
     (processFiles unsortedConfig sampleEnv sampleDir (componentFilesOf unsortedConfig sampleFiles)) =
     [''form'', ''card'', ''button''] \<and>
   firstOccurrences (map componentNameOf
     (filter (contributes unsortedConfig sampleEnv sampleDir)
        (componentFilesOf unsortedConfig sampleFiles))) = [''form'', ''card'', ''button'']"
proof -
  have sorted: "sorted_wrt (<) (componentNames defaultConfig
     (processFiles defaultConfig sampleEnv sampleDir (componentFilesOf defaultConfig sampleFiles)))"
    using C9_statement_order [of defaultConfig sampleEnv sampleFiles]
    unfolding Let_def sample_dir by (simp only: defaultConfig_fields)
  have "componentNames unsortedConfig
     (processFiles unsortedConfig sampleEnv sampleDir (componentFilesOf unsortedConfig sampleFiles)) =
     firstOccurrences (map componentNameOf
       (filter (contributes unsortedConfig sampleEnv sampleDir)
          (componentFilesOf unsortedConfig sampleFiles)))"
    using C9_statement_order [of unsortedConfig sampleEnv sampleFiles]
    unfolding Let_def unsorted_fields(3) by (simp only: unsorted_fields(1) not_False_eq_True)
  then have first: "firstOccurrences (map componentNameOf
       (filter (contributes unsortedConfig sampleEnv sampleDir)
          (componentFilesOf unsortedConfig sampleFiles))) = [''form'', ''card'', ''button'']"
    by (simp only: unsorted_names)
  have files: "componentFilesOf unsortedConfig sampleFiles =
      [''form.tsx'', ''card.tsx'', ''button.tsx'', ''broken.ts'']"
    by (simp only: unsorted_fields sample_componentFiles)
  from sorted have "sorted_wrt (<) [''button'', ''card'', ''form'']"
    by (simp only: sample_exportsOf)
  with first files show ?thesis
    using defaultConfig_fields(3) unsorted_fields(1) sample_exportsOf(3) unsorted_names
    by (intro conjI)
qed

text \<open>
  C10 (amended). The output holds at most one statement per base name. The export list
  kept for a base name is that of the last file of that base name, in enumeration
  order, that was read and parsed and yielded at least one export; a later file of that
  base name that fails or yields no export replaces nothing. The extension recorded for
  a base name is that of the last file of that base name in enumeration order.
\<close>

theorem C10_one_statement_per_base_name:
  "let dir = resolveComponentsDir cfg e;
       componentFiles = componentFilesOf cfg files;
       ls = processFiles cfg e dir componentFiles
   in distinct (componentNames cfg ls) \<and>
      indexContent cfg (useExplicitExtensions cfg e) ls =
        Inr (headerComment cfg @
             concat (map (statementFor cfg (useExplicitExtensions cfg e) ls) (componentNames cfg ls))) \<and>
      (\<forall>k. mapGet (componentExports ls) k = lastOption (contributionsFor cfg e dir componentFiles k)) \<and>
      (\<forall>k. mapGet (fileExtensions ls) k =
            lastOption (map extname (filter (\<lambda>f. componentNameOf f = k) componentFiles)))"
  by (simp add: Let_def componentNames_distinct indexContent_eq processFiles_stored
        processFiles_recorded_extension)

text \<open>
  \<^verbatim>\<open>button.ts\<close> (one export) listed before \<^verbatim>\<open>button.tsx\<close> (two exports): the one
  statement for \<^verbatim>\<open>button\<close> carries the list and the extension of \<^verbatim>\<open>button.tsx\<close>.
\<close>

theorem C10_one_statement_per_base_name_witness:
  "componentNameOf ''button.ts'' = ''button'' \<and> componentNameOf ''button.tsx'' = ''button'' \<and>
   contribution defaultConfig variantsEnv sampleDir ''button.ts'' = Some [''buttonVariants''] \<and>
   contribution defaultConfig variantsEnv sampleDir ''button.tsx'' = Some [''Button'', ''type ButtonProps''] \<and>
   componentNames defaultConfig
     (processFiles defaultConfig variantsEnv sampleDir [''button.ts'', ''button.tsx'']) = [''button''] \<and>
   lastOption (contributionsFor defaultConfig variantsEnv sampleDir [''button.ts'', ''button.tsx''] ''button'')
     = Some [''Button'', ''type ButtonProps''] \<and>
   lastOption (map extname (filter (\<lambda>f. componentNameOf f = ''button'') [''button.ts'', ''button.tsx'']))
     = Some ''.tsx''"
proof -
  have dir: "resolveComponentsDir defaultConfig variantsEnv = sampleDir"
    by (simp add: resolve_sample variantEnv_fields defaultConfig_fields)
  have stored:
    "mapGet (componentExports (processFiles defaultConfig variantsEnv sampleDir [''button.ts'', ''button.tsx'']))
       ''button'' =
     lastOption (contributionsFor defaultConfig variantsEnv sampleDir [''button.ts'', ''button.tsx''] ''button'')"
    "mapGet (fileExtensions (processFiles defaultConfig variantsEnv sampleDir [''button.ts'', ''button.tsx'']))
       ''button'' =
     lastOption (map extname (filter (\<lambda>f. componentNameOf f = ''button'') [''button.ts'', ''button.tsx'']))"
    using C10_one_statement_per_base_name [of defaultConfig variantsEnv "[''button.ts'', ''button.tsx'']"]
    unfolding Let_def dir twin_componentFiles by blast+
  have "lastOption (contributionsFor defaultConfig variantsEnv sampleDir [''button.ts'', ''button.tsx''] ''button'')
     = Some [''Button'', ''type ButtonProps'']"
    "lastOption (map extname (filter (\<lambda>f. componentNameOf f = ''button'') [''button.ts'', ''button.tsx'']))
     = Some ''.tsx''"
    unfolding stored [symmetric] by (simp_all add: variants_loop mapGet_def)
  then show ?thesis
    by (simp add: twin_names sample_names twin_contributions variants_loop componentNames_def
          mapKeys_def defaultConfig_fields)
qed

text \<open>
  The claim as stated fails when the last file of a base name yields no export:
  \<^verbatim>\<open>button.ts\<close>, listed after \<^verbatim>\<open>button.tsx\<close>, holds only \<^verbatim>\<open>export * from\<close>; its empty
  export list does not replace that of \<^verbatim>\<open>button.tsx\<close>.
\<close>

theorem C10_empty_last_file_replaces_nothing:
  "readdirResult starEnv sampleDir = Inr twinFiles \<and>
   componentFilesOf defaultConfig twinFiles = [''button.tsx'', ''button.ts''] \<and>
   componentNameOf ''button.tsx'' = ''button'' \<and> componentNameOf ''button.ts'' = ''button'' \<and>
   sourceFile starEnv (join sampleDir ''button.ts'') = Inr starTs \<and>
   clauseOf defaultConfig starTs = [] \<and>
   writesOf (trace (generateIndex defaultConfig starEnv sampleWorld)) =
     [(''/proj/src/components/ui/index.ts'',
       defaultHeaderComment @
       unlines [''export { Button, type ButtonProps } from '' @ [dq] @ ''./button'' @ [dq] @ '';''])]"
proof -
  have dir: "resolveComponentsDir defaultConfig starEnv = sampleDir"
    by (simp add: resolve_sample variantEnv_fields defaultConfig_fields)
  have "writesOf (trace (generateIndex defaultConfig starEnv sampleWorld)) =
     [(''/proj/src/components/ui/index.ts'', renderedText defaultConfig starEnv twinFiles)]"
    using writes_when_listed [of starEnv defaultConfig twinFiles sampleWorld]
    by (simp add: dir variantEnv_fields defaultConfig_fields sampleWorld_fields sample_dir)
  then show ?thesis
    by (simp add: star_text variantEnv_fields twin_componentFiles twin_names sample_names
          twin_contributions)
qed

end
